theory Spec2Isabelle
  imports Complex_Main "HOL-Library.Word"
begin

section \<open>JavaScript strings\<close>

text \<open>
  A JavaScript string is a sequence of UTF-16 code units. \<open>String.prototype.trim\<close> and the
  regular expression class \<open>\s\<close> (without the \<open>u\<close> flag) both work on code units and
  share one set of white space: the WhiteSpace and LineTerminator code points of ECMAScript.
\<close>

type_synonym jschar = "16 word"
type_synonym jsstring = "jschar list"

text \<open>An ASCII literal of the source, as code units.\<close>

definition js :: "string \<Rightarrow> jsstring" where
  "js s = map (\<lambda>c. of_nat (of_char c)) s"

definition white_space :: "jschar list" where
  "white_space =
     [0x0009, 0x000A, 0x000B, 0x000C, 0x000D, 0x0020, 0x00A0, 0x1680,
      0x2000, 0x2001, 0x2002, 0x2003, 0x2004, 0x2005, 0x2006, 0x2007,
      0x2008, 0x2009, 0x200A, 0x2028, 0x2029, 0x202F, 0x205F, 0x3000, 0xFEFF]"

definition is_white_space :: "jschar \<Rightarrow> bool" where
  "is_white_space c = (c \<in> set white_space)"

text \<open>\<open>s.trim()\<close>: white space removed at both ends.\<close>

definition trim :: "jsstring \<Rightarrow> jsstring" where
  "trim s = rev (dropWhile is_white_space (rev (dropWhile is_white_space s)))"

text \<open>\<open>String(n)\<close> of a non-negative integer: its decimal digits.\<close>

fun digits :: "nat \<Rightarrow> jsstring" where
  "digits n = (if n < 10 then [of_nat (48 + n)] else digits (n div 10) @ [of_nat (48 + n mod 10)])"

declare digits.simps [simp del]

section \<open>The regular expression of the e-mail check\<close>

text \<open>
  The pattern language covers what the source's literal uses: a literal character, a
  negated class whose members are \<open>\s\<close> or single characters, and the quantifier \<open>+\<close>.
  A pattern is the list of its terms; it is anchored at both ends, as \<open>^\<close> and \<open>$\<close> anchor a
  pattern without the \<open>m\<close> flag, so \<open>test\<close> asks for a match of the whole input.
\<close>

datatype class_item = Escape_s | Single jschar

datatype atom = Lit jschar | NegClass "class_item list"

datatype quantifier = Once | OneOrMore

fun in_class_item :: "class_item \<Rightarrow> jschar \<Rightarrow> bool" where
  "in_class_item Escape_s c = is_white_space c"
| "in_class_item (Single d) c = (c = d)"

fun atom_matches :: "atom \<Rightarrow> jschar \<Rightarrow> bool" where
  "atom_matches (Lit d) c = (c = d)"
| "atom_matches (NegClass items) c = (\<not> list_ex (\<lambda>i. in_class_item i c) items)"

fun regex_test :: "(atom \<times> quantifier) list \<Rightarrow> jsstring \<Rightarrow> bool" where
  "regex_test [] s = (s = [])"
| "regex_test ((a, q) # r) [] = False"
| "regex_test ((a, Once) # r) (c # s) = (atom_matches a c \<and> regex_test r s)"
| "regex_test ((a, OneOrMore) # r) (c # s) =
     (atom_matches a c \<and> (regex_test ((a, OneOrMore) # r) s \<or> regex_test r s))"

text \<open>\<^verbatim>\<open>/^[^\s@]+@[^\s@]+\.[^\s@]+$/\<close>\<close>

definition email_regex :: "(atom \<times> quantifier) list" where
  "email_regex =
     [(NegClass [Escape_s, Single 0x40], OneOrMore), (Lit 0x40, Once),
      (NegClass [Escape_s, Single 0x40], OneOrMore), (Lit 0x2E, Once),
      (NegClass [Escape_s, Single 0x40], OneOrMore)]"

section \<open>JavaScript values\<close>

text \<open>
  The handlers are typed \<open>any[]\<close> and pass parsed JSON on unchecked, so their values are
  modelled dynamically. A number is kept as far as the code looks at it: whether it is
  zero or NaN (the two zeros are one value here). A \<open>Date\<close> is its time value. An
  \<open>ErrorObj\<close> is an instance of \<open>Error\<close> with its message. An object is the list of its
  own properties.
\<close>

datatype jsnum = NaN | Fin rat | PosInfinity | NegInfinity

datatype date = Date int | InvalidDate

datatype jsval =
    Undefined
  | Null
  | Bool bool
  | Num jsnum
  | Str jsstring
  | DateObj date
  | ErrorObj jsstring
  | Arr "jsval list"
  | Obj "(jsstring \<times> jsval) list"

text \<open>ToBoolean.\<close>

fun truthy :: "jsval \<Rightarrow> bool" where
  "truthy Undefined = False"
| "truthy Null = False"
| "truthy (Bool b) = b"
| "truthy (Num NaN) = False"
| "truthy (Num (Fin q)) = (q \<noteq> 0)"
| "truthy (Num PosInfinity) = True"
| "truthy (Num NegInfinity) = True"
| "truthy (Str s) = (s \<noteq> [])"
| "truthy (DateObj d) = True"
| "truthy (ErrorObj m) = True"
| "truthy (Arr xs) = True"
| "truthy (Obj kvs) = True"

text \<open>\<open>a || b\<close>\<close>

definition js_or :: "jsval \<Rightarrow> jsval \<Rightarrow> jsval" where
  "js_or a b = (if truthy a then a else b)"

text \<open>\<open>o.k\<close> on an object with the own properties \<open>kvs\<close>.\<close>

definition get_prop :: "(jsstring \<times> jsval) list \<Rightarrow> string \<Rightarrow> jsval" where
  "get_prop kvs k = (case map_of kvs (js k) of None \<Rightarrow> Undefined | Some v \<Rightarrow> v)"

text \<open>
  \<open>v.length\<close>: reading a property of \<open>undefined\<close> or \<open>null\<close> throws a TypeError; a number, a
  boolean, a date and an error have no such property.
\<close>

fun prop_length :: "jsval \<Rightarrow> jsval + jsval" where
  "prop_length Undefined = Inl (ErrorObj (js ''Cannot read properties of undefined''))"
| "prop_length Null = Inl (ErrorObj (js ''Cannot read properties of null''))"
| "prop_length (Str s) = Inr (Num (Fin (of_nat (length s))))"
| "prop_length (Arr xs) = Inr (Num (Fin (of_nat (length xs))))"
| "prop_length (Obj kvs) = Inr (get_prop kvs ''length'')"
| "prop_length v = Inr Undefined"

text \<open>\<open>v === 0\<close>\<close>

fun strict_eq_zero :: "jsval \<Rightarrow> bool" where
  "strict_eq_zero (Num (Fin q)) = (q = 0)"
| "strict_eq_zero v = False"

text \<open>\<open>error instanceof Error ? error.message : 'Unknown error'\<close>\<close>

fun error_message :: "jsval \<Rightarrow> jsstring" where
  "error_message (ErrorObj m) = m"
| "error_message v = js ''Unknown error''"

section \<open>The data of the component\<close>

text \<open>
  The user that \<open>useAuth\<close> returns, with the fields the component reads; the component
  copies them into the text fields of the form, so they are strings.
\<close>

record user =
  user_id :: jsstring
  user_firstName :: jsstring
  user_lastName :: jsstring
  user_brandName :: jsstring
  user_email :: jsstring

text \<open>A browser \<open>File\<close>: name, MIME type and size in bytes.\<close>

record File =
  file_name :: jsstring
  file_type :: jsstring
  file_size :: nat

record FormData =
  firstName :: jsstring
  lastName :: jsstring
  brandName :: jsstring
  email :: jsstring
  file' :: "File option"

record FormErrors =
  err_firstName :: "jsstring option"
  err_lastName :: "jsstring option"
  err_brandName :: "jsstring option"
  err_email :: "jsstring option"
  err_file :: "jsstring option"

datatype submit_status = Idle | Success | Error

text \<open>
  Modelled from the spec: the conversation summary of \<open>hooks/useChatHistory\<close> (identifier,
  title, creation and update timestamps, message count); the hook is not under src/.
\<close>

record conversation =
  conv_id :: jsstring
  title :: jsstring
  createdAt :: date
  updatedAt :: date
  messageCount :: nat

text \<open>
  Modelled from the spec: the \<open>ChatMessage\<close> of \<open>hooks/useChatHistory\<close> (identifier, text
  content, sender tag, timestamp, optional attachments); the hook is not under src/.
\<close>

record ChatMessage =
  msg_id :: jsstring
  content :: jsstring
  sender :: jsstring
  timestamp :: date
  attachments :: "jsval option"

section \<open>Effects\<close>

text \<open>
  An HTTP request as \<open>fetch\<close> receives it. The body is \<open>JSON.stringify(v)\<close>, kept as the
  value \<open>v\<close> it is made from, or a browser \<open>FormData\<close>: its entries in the order of the
  \<open>append\<close> calls.
\<close>

datatype form_value = Text jsstring | Blob File

datatype body = JsonBody jsval | FormBody "(jsstring \<times> form_value) list"

record request =
  url :: jsstring
  http_method :: jsstring
  headers :: "(jsstring \<times> jsstring) list"
  body :: body

text \<open>
  What the \<open>Response\<close> of a \<open>fetch\<close> shows to the component: \<open>ok\<close>, \<open>status\<close>,
  \<open>statusText\<close> and the outcome of \<open>await response.text()\<close>, which may throw.
  A \<open>fetch\<close> itself either throws or returns a response.
\<close>

record response =
  ok :: bool
  status :: nat
  statusText :: jsstring
  text_result :: "jsval + jsstring"

datatype fetch_result = Rejects jsval | Resolves response

text \<open>The calls to the two history hooks.\<close>

datatype history_call = LoadConversationMessages jsstring | LoadN8NChatHistory

text \<open>The closure handed to \<open>setTimeout\<close> by \<open>handleSubmit\<close>.\<close>

datatype timer_callback = CloseUploadForm

datatype console_level = Log | Err

text \<open>
  The state of the component that the handlers read and write, and a record of their
  effects on the outside: the requests issued, the hook calls, the console, the pending
  timers (delay in milliseconds), the value of the \<open>file-upload\<close> input if the element
  exists, and the events dispatched on \<open>window\<close>.
\<close>

record app_state =
  formData :: FormData
  errors :: FormErrors
  isSubmitting :: bool
  submitStatus :: submit_status
  submitMessage :: jsstring
  showUploadForm :: bool
  userId :: jsstring
  requests :: "request list"
  history_calls :: "history_call list"
  console :: "(console_level \<times> jsval list) list"
  timers :: "(nat \<times> timer_callback) list"
  fileInput :: "jsstring option"
  events :: "(jsstring \<times> jsval) list"

definition console_log :: "jsval list \<Rightarrow> app_state \<Rightarrow> app_state" where
  "console_log args st = st\<lparr>console := console st @ [(Log, args)]\<rparr>"

definition console_error :: "jsval list \<Rightarrow> app_state \<Rightarrow> app_state" where
  "console_error args st = st\<lparr>console := console st @ [(Err, args)]\<rparr>"

section \<open>validateForm\<close>

text \<open>\<open>user?.field || formField\<close>: the empty string is falsy, as is a missing user.\<close>

definition user_or :: "user option \<Rightarrow> (user \<Rightarrow> jsstring) \<Rightarrow> jsstring \<Rightarrow> jsstring" where
  "user_or u field other =
     (case map_option field u of
        None \<Rightarrow> other
      | Some s \<Rightarrow> if s \<noteq> [] then s else other)"

definition newErrors :: "user option \<Rightarrow> FormData \<Rightarrow> FormErrors" where
  "newErrors u fd =
     (let firstName' = user_or u user_firstName (firstName fd);
          lastName' = user_or u user_lastName (lastName fd);
          brandName' = user_or u user_brandName (brandName fd);
          email' = user_or u user_email (email fd)
      in \<lparr> err_firstName =
             (if trim firstName' = [] then Some (js ''First name is required'') else None),
           err_lastName =
             (if trim lastName' = [] then Some (js ''Last name is required'') else None),
           err_brandName =
             (if trim brandName' = [] then Some (js ''Brand name is required'') else None),
           err_email =
             (if trim email' = [] then Some (js ''Email is required'')
              else if \<not> regex_test email_regex email'
                then Some (js ''Please enter a valid email address'')
              else None),
           err_file =
             (case file' fd of
                None \<Rightarrow> Some (js ''Please select a PDF file'')
              | Some f \<Rightarrow>
                  if file_type f \<noteq> js ''application/pdf''
                    then Some (js ''Only PDF files are allowed'')
                  else if file_size f > 10 * 1024 * 1024
                    then Some (js ''File size must be less than 10MB'')
                  else None) \<rparr>)"

text \<open>\<open>Object.keys(newErrors)\<close>: the fields that were assigned, in the order of assignment.\<close>

definition error_keys :: "FormErrors \<Rightarrow> jsstring list" where
  "error_keys e =
     (if err_firstName e = None then [] else [js ''firstName'']) @
     (if err_lastName e = None then [] else [js ''lastName'']) @
     (if err_brandName e = None then [] else [js ''brandName'']) @
     (if err_email e = None then [] else [js ''email'']) @
     (if err_file e = None then [] else [js ''file''])"

definition validateForm :: "user option \<Rightarrow> app_state \<Rightarrow> bool \<times> app_state" where
  "validateForm u st =
     (let e = newErrors u (formData st)
      in (length (error_keys e) = 0, st\<lparr>errors := e\<rparr>))"

section \<open>handleSubmit\<close>

text \<open>The \<open>FormData\<close> of the upload and its request, from the user and the form.\<close>

definition formDataToSend :: "user option \<Rightarrow> FormData \<Rightarrow> (jsstring \<times> form_value) list" where
  "formDataToSend u fd =
     [(js ''firstName'', Text (user_or u user_firstName (firstName fd))),
      (js ''lastName'', Text (user_or u user_lastName (lastName fd))),
      (js ''brandName'', Text (user_or u user_brandName (brandName fd))),
      (js ''email'', Text (user_or u user_email (email fd))),
      (js ''userId'', Text (user_or u user_email (email fd))),
      (js ''userName'',
         Text (case u of
                 Some x \<Rightarrow> user_firstName x @ js '' '' @ user_lastName x
               | None \<Rightarrow> firstName fd @ js '' '' @ lastName fd)),
      (js ''userBrandName'', Text (user_or u user_brandName (brandName fd))),
      (js ''data'', (case file' fd of Some f \<Rightarrow> Blob f | None \<Rightarrow> Text (js ''null'')))]"

definition upload_request :: "user option \<Rightarrow> FormData \<Rightarrow> request" where
  "upload_request u fd =
     \<lparr> url = js ''/api/webhook-test/document-upload'',
       http_method = js ''POST'',
       headers = [],
       body = FormBody (formDataToSend u fd) \<rparr>"

text \<open>The object of the second \<open>console.log\<close>.\<close>

definition upload_data :: "user option \<Rightarrow> jsstring \<Rightarrow> FormData \<Rightarrow> File \<Rightarrow> jsval" where
  "upload_data u uid fd f =
     Obj [(js ''firstName'', Str (user_or u user_firstName (firstName fd))),
          (js ''lastName'', Str (user_or u user_lastName (lastName fd))),
          (js ''brandName'', Str (user_or u user_brandName (brandName fd))),
          (js ''email'', Str (user_or u user_email (email fd))),
          (js ''userId'', Str (user_or u user_id uid)),
          (js ''fileName'', Str (file_name f)),
          (js ''fileSize'', Num (Fin (of_nat (file_size f))))]"

definition success_message :: jsstring where
  "success_message =
     [0xF0, 0x178, 0x17D, 0x2030] @
     js '' Document uploaded successfully! Your file has been processed and is ready for analysis.''"

definition failure_message :: "jsval \<Rightarrow> jsstring" where
  "failure_message e =
     [0xE2, 0x152] @ js '' Failed to upload document: '' @ error_message e @
     js ''. Please try again.''"

text \<open>
  The message of the error thrown for a response that is not ok:
  \<^verbatim>\<open>Upload failed (${response.status}): ${responseText || response.statusText}\<close>
\<close>

definition upload_failed :: "response \<Rightarrow> jsstring \<Rightarrow> jsstring" where
  "upload_failed r responseText =
     js ''Upload failed ('' @ digits (status r) @ js ''): '' @
     (if responseText \<noteq> [] then responseText else statusText r)"

text \<open>The \<open>catch\<close> block.\<close>

definition submit_catch :: "jsval \<Rightarrow> app_state \<Rightarrow> app_state" where
  "submit_catch e st =
     (console_error [Str (js ''Upload error:''), e] st)
       \<lparr>submitStatus := Error, submitMessage := failure_message e\<rparr>"

definition emptyForm :: FormData where
  "emptyForm = \<lparr>firstName = [], lastName = [], brandName = [], email = [], file' = None\<rparr>"

text \<open>
  The \<open>try\<close> block. \<open>fd\<close> is the \<open>formData\<close> of the render the handler belongs to.
  With no file, \<open>append\<close> stores the text \<open>null\<close> and reading \<open>formData.file!.name\<close> for
  the second log throws a TypeError.
\<close>

definition submit_try ::
  "user option \<Rightarrow> (request \<Rightarrow> fetch_result) \<Rightarrow> FormData \<Rightarrow> app_state \<Rightarrow> app_state" where
  "submit_try u fetch fd st =
     (let st1 = console_log [Str (js ''Sending document upload to:''),
                  Str (js ''https://iamfashion.app.n8n.cloud/webhook/document-upload'')] st
      in case file' fd of
           None \<Rightarrow> submit_catch (ErrorObj (js ''Cannot read properties of null'')) st1
         | Some f \<Rightarrow>
             (let st2 = console_log [Str (js ''Upload data:''), upload_data u (userId st) fd f] st1;
                  st3 = st2\<lparr>requests := requests st2 @ [upload_request u fd]\<rparr>
              in case fetch (upload_request u fd) of
                   Rejects e \<Rightarrow> submit_catch e st3
                 | Resolves r \<Rightarrow>
                     if ok r then
                       st3\<lparr>submitStatus := Success,
                           submitMessage := success_message,
                           formData := emptyForm,
                           fileInput := map_option (\<lambda>v. []) (fileInput st3),
                           timers := timers st3 @ [(3000, CloseUploadForm)]\<rparr>
                     else
                       (case text_result r of
                          Inl e \<Rightarrow> submit_catch e st3
                        | Inr responseText \<Rightarrow>
                            submit_catch (ErrorObj (upload_failed r responseText)) st3)))"

definition handleSubmit ::
  "user option \<Rightarrow> (request \<Rightarrow> fetch_result) \<Rightarrow> app_state \<Rightarrow> app_state" where
  "handleSubmit u fetch st =
     (case validateForm u st of
        (False, st1) \<Rightarrow> st1
      | (True, st1) \<Rightarrow>
          (submit_try u fetch (formData st)
             (st1\<lparr>isSubmitting := True, submitStatus := Idle\<rparr>))
            \<lparr>isSubmitting := False\<rparr>)"

text \<open>What the timer's closure does when it fires.\<close>

fun run_callback :: "timer_callback \<Rightarrow> app_state \<Rightarrow> app_state" where
  "run_callback CloseUploadForm st =
     st\<lparr>showUploadForm := False, submitStatus := Idle, submitMessage := []\<rparr>"

section \<open>handleLoadAllHistory and handleLoadN8NHistory\<close>

text \<open>
  The messages are object literals. \<open>toLocaleDateString\<close> depends on the locale of the
  browser and is a parameter, as is \<open>loadConversationMessages\<close> of the hook, whose call
  returns the messages of a conversation or throws.
\<close>

definition separator :: "(date \<Rightarrow> jsstring) \<Rightarrow> conversation \<Rightarrow> jsval" where
  "separator toLocaleDateString c =
     Obj [(js ''id'', Str (js ''separator-'' @ conv_id c)),
          (js ''content'',
             Str (js ''--- '' @ title c @ js '' ('' @ toLocaleDateString (createdAt c) @ js '') ---'')),
          (js ''sender'', Str (js ''bot'')),
          (js ''timestamp'', DateObj (createdAt c))]"

definition optional :: "jsval option \<Rightarrow> jsval" where
  "optional v = (case v of None \<Rightarrow> Undefined | Some x \<Rightarrow> x)"

definition history_message :: "ChatMessage \<Rightarrow> jsval" where
  "history_message msg =
     Obj [(js ''id'', Str (js ''history-'' @ msg_id msg)),
          (js ''content'', Str (content msg)),
          (js ''sender'', Str (sender msg)),
          (js ''timestamp'', DateObj (timestamp msg)),
          (js ''attachments'', optional (attachments msg))]"

text \<open>The \<open>for\<close> loop, with \<open>allMessages\<close> as accumulator; \<open>Inl\<close> is a thrown value.\<close>

fun load_all ::
  "(jsstring \<Rightarrow> jsval + ChatMessage list) \<Rightarrow> (date \<Rightarrow> jsstring) \<Rightarrow> conversation list \<Rightarrow>
   jsval list \<Rightarrow> app_state \<Rightarrow> (jsval + jsval list) \<times> app_state" where
  "load_all loadConversationMessages fmt [] allMessages st = (Inr allMessages, st)"
| "load_all loadConversationMessages fmt (c # cs) allMessages st =
     (let st1 = st\<lparr>history_calls := history_calls st @ [LoadConversationMessages (conv_id c)]\<rparr>
      in case loadConversationMessages (conv_id c) of
           Inl e \<Rightarrow> (Inl e, st1)
         | Inr messages \<Rightarrow>
             load_all loadConversationMessages fmt cs
               ((if length allMessages > 0 then allMessages @ [separator fmt c] else allMessages)
                  @ map history_message messages)
               st1)"

definition handleLoadAllHistory ::
  "user option \<Rightarrow> bool \<Rightarrow> conversation list \<Rightarrow> (jsstring \<Rightarrow> jsval + ChatMessage list) \<Rightarrow>
   (date \<Rightarrow> jsstring) \<Rightarrow> app_state \<Rightarrow> jsval list \<times> app_state" where
  "handleLoadAllHistory u isAuthenticated conversations loadConversationMessages fmt st =
     (if u = None \<or> \<not> isAuthenticated then ([], st)
      else case load_all loadConversationMessages fmt conversations [] st of
             (Inl e, st1) \<Rightarrow>
               ([], console_error [Str (js ''Error loading chat history:''), e] st1)
           | (Inr allMessages, st1) \<Rightarrow> (allMessages, st1))"

definition n8n_message :: "ChatMessage \<Rightarrow> jsval" where
  "n8n_message msg =
     Obj [(js ''id'', Str (msg_id msg)),
          (js ''content'', Str (content msg)),
          (js ''sender'', Str (sender msg)),
          (js ''timestamp'', DateObj (timestamp msg)),
          (js ''attachments'', optional (attachments msg))]"

definition handleLoadN8NHistory ::
  "user option \<Rightarrow> bool \<Rightarrow> (jsval + ChatMessage list) \<Rightarrow> app_state \<Rightarrow> jsval list \<times> app_state" where
  "handleLoadN8NHistory u isAuthenticated loadN8NChatHistory st =
     (if u = None \<or> \<not> isAuthenticated then ([], st)
      else
        (let st1 = st\<lparr>history_calls := history_calls st @ [LoadN8NChatHistory]\<rparr>
         in case loadN8NChatHistory of
              Inl e \<Rightarrow> ([], console_error [Str (js ''Error loading N8N chat history:''), e] st1)
            | Inr n8nMessages \<Rightarrow> (map n8n_message n8nMessages, st1)))"

section \<open>The handler of the button that retrieves the chat history\<close>

text \<open>
  \<open>JSON.parse\<close> returns a JSON value or throws a SyntaxError, and is a parameter. An
  object holds its properties under distinct names; a property is read from the first
  entry of that name.
\<close>

datatype json =
    JNull
  | JBool bool
  | JNum jsnum
  | JStr jsstring
  | JArr "json list"
  | JObj "(jsstring \<times> json) list"

primrec of_json :: "json \<Rightarrow> jsval" where
  "of_json JNull = Null"
| "of_json (JBool b) = Bool b"
| "of_json (JNum n) = Num n"
| "of_json (JStr s) = Str s"
| "of_json (JArr xs) = Arr (map of_json xs)"
| "of_json (JObj kvs) = Obj (map (map_prod id of_json) kvs)"

text \<open>\<open>{content: c, sender: 'bot', timestamp: new Date().toISOString()}\<close>\<close>

definition bot_message :: "jsstring \<Rightarrow> jsstring \<Rightarrow> jsval" where
  "bot_message c now =
     Obj [(js ''content'', Str c), (js ''sender'', Str (js ''bot'')), (js ''timestamp'', Str now)]"

text \<open>The inner \<open>catch\<close>: a body that is not JSON is one message, unless it is blank.\<close>

definition parse_catch :: "jsstring \<Rightarrow> jsstring \<Rightarrow> app_state \<Rightarrow> jsval \<times> app_state" where
  "parse_catch responseText now st =
     (let st1 = console_log [Str (js ''Response is not JSON, treating as text message'')] st
      in if trim responseText \<noteq> [] then (Arr [bot_message (trim responseText) now], st1)
         else (Arr [], st1))"

text \<open>
  The inner \<open>try\<close>, from the response text to \<open>messages\<close>. A TypeError of
  \<open>messages.length\<close> would be caught by the same \<open>catch\<close> as the SyntaxError.
\<close>

definition extract_messages ::
  "(jsstring \<Rightarrow> jsval + json) \<Rightarrow> jsstring \<Rightarrow> jsstring \<Rightarrow> app_state \<Rightarrow> jsval \<times> app_state" where
  "extract_messages JSON_parse now responseText st =
     (case JSON_parse responseText of
        Inl e \<Rightarrow> parse_catch responseText now st
      | Inr parsedResult \<Rightarrow>
          (let st1 = console_log [Str (js ''Parsed JSON response:''), of_json parsedResult] st
           in case parsedResult of
                JArr xs \<Rightarrow> (of_json parsedResult, st1)
              | JObj kvs \<Rightarrow>
                  (let p = get_prop (map (map_prod id of_json) kvs);
                       messages =
                         js_or (js_or (js_or (js_or (js_or (js_or
                           (p ''messages'') (p ''data'')) (p ''history'')) (p ''chat_history''))
                           (p ''conversations'')) (p ''items'')) (Arr [])
                   in case prop_length messages of
                        Inl e \<Rightarrow> parse_catch responseText now st1
                      | Inr len \<Rightarrow>
                          if strict_eq_zero len \<and>
                             truthy (js_or (js_or (p ''content'') (p ''message'')) (p ''text''))
                          then (Arr [of_json parsedResult], st1)
                          else (messages, st1))
              | _ \<Rightarrow> (Arr [], st1)))"

text \<open>\<open>window.dispatchEvent(new CustomEvent('loadWebhookHistory', {detail}))\<close>\<close>

definition dispatch :: "jsval \<Rightarrow> app_state \<Rightarrow> app_state" where
  "dispatch detail st = st\<lparr>events := events st @ [(js ''loadWebhookHistory'', detail)]\<rparr>"

definition history_request :: "user option \<Rightarrow> jsstring \<Rightarrow> request" where
  "history_request u now =
     \<lparr> url = js ''https://iamfashion.app.n8n.cloud/webhook/511abe15-0332-4bf8-9ed7-bc718465191c'',
       http_method = js ''POST'',
       headers = [(js ''Content-Type'', js ''application/json'')],
       body = JsonBody (Obj
         [(js ''userId'', (case u of None \<Rightarrow> Undefined | Some x \<Rightarrow> Str (user_id x))),
          (js ''email'', (case u of None \<Rightarrow> Undefined | Some x \<Rightarrow> Str (user_email x))),
          (js ''timestamp'', Str now)]) \<rparr>"

text \<open>The outer \<open>catch\<close>.\<close>

definition retrieve_catch :: "jsval \<Rightarrow> jsstring \<Rightarrow> app_state \<Rightarrow> app_state" where
  "retrieve_catch e now st =
     dispatch
       (Arr [bot_message (js ''Error retrieving chat history: '' @ error_message e) now])
       (console_error [Str (js ''Error calling retrieve chat history webhook:''), e] st)"

text \<open>
  The handler. The clock is read once for the request and once for a message the handler
  writes itself: \<open>now_request\<close> and \<open>now_message\<close> are the two readings as ISO strings.
\<close>

definition retrieve_onClick ::
  "user option \<Rightarrow> (jsstring \<Rightarrow> jsval + json) \<Rightarrow> (request \<Rightarrow> fetch_result) \<Rightarrow>
   jsstring \<Rightarrow> jsstring \<Rightarrow> app_state \<Rightarrow> app_state" where
  "retrieve_onClick u JSON_parse fetch now_request now_message st =
     (let st1 = console_log [Str (js ''Calling retrieve chat history webhook...'')] st;
          req = history_request u now_request;
          st2 = st1\<lparr>requests := requests st1 @ [req]\<rparr>
      in case fetch req of
           Rejects e \<Rightarrow> retrieve_catch e now_message st2
         | Resolves r \<Rightarrow>
             if ok r then
               (case text_result r of
                  Inl e \<Rightarrow> retrieve_catch e now_message st2
                | Inr responseText \<Rightarrow>
                    (let st3 = console_log [Str (js ''Raw webhook response:''), Str responseText] st2;
                         (messages, st4) = extract_messages JSON_parse now_message responseText st3;
                         st5 = console_log [Str (js ''Extracted messages:''), messages] st4
                     in dispatch messages st5))
             else
               dispatch
                 (Arr [bot_message
                         (js ''Failed to retrieve chat history: '' @ digits (status r) @ js '' '' @
                            statusText r)
                         now_message])
                 (console_error
                    [Str (js ''Failed to retrieve chat history:''),
                     Num (Fin (of_nat (status r))), Str (statusText r)] st2))"

section \<open>Notions of the specification\<close>

text \<open>
  The effective value of a text field: the logged-in user's field when a user is present
  and that field is non-empty, otherwise the form field.
\<close>

definition effective :: "user option \<Rightarrow> (user \<Rightarrow> jsstring) \<Rightarrow> jsstring \<Rightarrow> jsstring" where
  "effective u field formField =
     (case u of
        Some x \<Rightarrow> if field x \<noteq> [] then field x else formField
      | None \<Rightarrow> formField)"

text \<open>A character that may stand in a part of an address: no white space and no \<open>@\<close>.\<close>

definition address_char :: "jschar \<Rightarrow> bool" where
  "address_char c = (\<not> is_white_space c \<and> c \<noteq> 0x40)"

text \<open>A file is selected, its MIME type is \<open>application/pdf\<close> and it has at most 10 MiB.\<close>

definition file_ok :: "FormData \<Rightarrow> bool" where
  "file_ok fd =
     (\<exists>f. file' fd = Some f \<and> file_type f = js ''application/pdf'' \<and>
          file_size f \<le> 10 * 1024 * 1024)"

text \<open>\<open>s\<close> contains \<open>sub\<close> (as \<open>s.includes(sub)\<close> decides it).\<close>

fun js_includes :: "jsstring \<Rightarrow> jsstring \<Rightarrow> bool" where
  "js_includes [] sub = (sub = [])"
| "js_includes (c # s) sub = (take (length sub) (c # s) = sub \<or> js_includes s sub)"

text \<open>The own property \<open>k\<close> of an object; \<open>undefined\<close> for a missing property.\<close>

fun property_of :: "jsval \<Rightarrow> string \<Rightarrow> jsval" where
  "property_of (Obj kvs) k = get_prop kvs k"
| "property_of v k = Undefined"




text \<open>The messages that the hook returns for a conversation (none if the call throws).\<close>

definition messages_of ::
  "(jsstring \<Rightarrow> jsval + ChatMessage list) \<Rightarrow> conversation \<Rightarrow> ChatMessage list" where
  "messages_of load c = (case load (conv_id c) of Inl e \<Rightarrow> [] | Inr ms \<Rightarrow> ms)"

text \<open>The first truthy value of a list, or \<open>d\<close> when there is none.\<close>

definition first_truthy :: "jsval list \<Rightarrow> jsval \<Rightarrow> jsval" where
  "first_truthy vs d = (case filter truthy vs of [] \<Rightarrow> d | v # rest \<Rightarrow> v)"

text \<open>\<open>v.length\<close> is the number 0.\<close>

definition has_length_zero :: "jsval \<Rightarrow> bool" where
  "has_length_zero v = (case prop_length v of Inl e \<Rightarrow> False | Inr len \<Rightarrow> strict_eq_zero len)"

text \<open>
  The message list as the specification words it, for a parsed body: the first present of
  the six fields (else the empty list), and the object itself when that list is empty
  and the object has a \<open>content\<close>, \<open>message\<close> or \<open>text\<close> field.
\<close>

definition first_present :: "jsval \<Rightarrow> string list \<Rightarrow> jsval \<Rightarrow> jsval" where
  "first_present v ks d =
     (case filter (\<lambda>k. property_of v k \<noteq> Undefined) ks of
        [] \<Rightarrow> d
      | k # rest \<Rightarrow> property_of v k)"

definition claimed_message_list :: "json \<Rightarrow> jsval" where
  "claimed_message_list j =
     (case j of
        JArr xs \<Rightarrow> of_json j
      | JObj kvs \<Rightarrow>
          (let l = first_present (of_json j)
                     [''messages'', ''data'', ''history'', ''chat_history'', ''conversations'',
                      ''items''] (Arr [])
           in if l = Arr [] \<and>
                 list_ex (\<lambda>k. property_of (of_json j) k \<noteq> Undefined)
                   [''content'', ''message'', ''text'']
              then Arr [of_json j] else l)
      | _ \<Rightarrow> Arr [])"

section \<open>Sample inputs\<close>

text \<open>The state of the first render: the initial values of the \<open>useState\<close> calls.\<close>

definition initial_state :: "jsstring \<Rightarrow> app_state" where
  "initial_state uid =
     \<lparr> formData = emptyForm,
       errors = \<lparr>err_firstName = None, err_lastName = None, err_brandName = None,
                 err_email = None, err_file = None\<rparr>,
       isSubmitting = False, submitStatus = Idle, submitMessage = [], showUploadForm = False,
       userId = uid, requests = [], history_calls = [], console = [], timers = [],
       fileInput = Some [], events = [] \<rparr>"

definition ann :: user where
  "ann = \<lparr>user_id = js ''u1'', user_firstName = js ''Ann'', user_lastName = js ''Lee'',
          user_brandName = js ''Acme'', user_email = js ''ann@acme.io''\<rparr>"

definition pdf :: File where
  "pdf = \<lparr>file_name = js ''a.pdf'', file_type = js ''application/pdf'', file_size = 2048\<rparr>"

text \<open>A form with a selected PDF whose text fields are blank or not an address.\<close>

definition blank_form :: FormData where
  "blank_form = \<lparr>firstName = [], lastName = js '' '', brandName = [], email = js ''nobody'',
                 file' = Some pdf\<rparr>"

definition ann_form :: FormData where
  "ann_form = \<lparr>firstName = js ''Ann'', lastName = js ''Lee'', brandName = js ''Acme'',
               email = js ''ann@acme.io'', file' = Some pdf\<rparr>"

definition ann_state :: app_state where
  "ann_state = (initial_state [])\<lparr>formData := ann_form\<rparr>"

definition ok_response :: response where
  "ok_response = \<lparr>ok = True, status = 200, statusText = js ''OK'', text_result = Inr []\<rparr>"

text \<open>A response with status 500 whose body says why, and one whose body cannot be read.\<close>

definition error_response :: response where
  "error_response =
     \<lparr>ok = False, status = 500, statusText = js ''Internal Server Error'',
      text_result = Inr (js ''disk full'')\<rparr>"

definition unreadable_response :: response where
  "unreadable_response =
     \<lparr>ok = False, status = 500, statusText = js ''Internal Server Error'',
      text_result = Inl (ErrorObj (js ''network error''))\<rparr>"


text \<open>A response whose body is not JSON, and a \<open>JSON.parse\<close> that throws.\<close>

definition text_response :: response where
  "text_response = \<lparr>ok = True, status = 200, statusText = js ''OK'', text_result = Inr (js '' hello '')\<rparr>"

definition not_json :: "jsstring \<Rightarrow> jsval + json" where
  "not_json s = Inl (ErrorObj (js ''Unexpected token''))"

text \<open>A \<open>JSON.parse\<close> that returns \<open>j\<close>, and a \<open>fetch\<close> that returns \<open>r\<close>.\<close>

definition parses_to :: "json \<Rightarrow> jsstring \<Rightarrow> jsval + json" where
  "parses_to j s = Inr j"

definition answers :: "response \<Rightarrow> request \<Rightarrow> fetch_result" where
  "answers r q = Resolves r"

text \<open>
  Parsed bodies: \<open>{"messages": 0, "data": ["hi"]}\<close>, \<open>{"messages": [], "text": ""}\<close> and
  \<open>{"content": "hi"}\<close>.
\<close>

definition zero_messages :: json where
  "zero_messages = JObj [(js ''messages'', JNum (Fin 0)), (js ''data'', JArr [JStr (js ''hi'')])]"

definition empty_text :: json where
  "empty_text = JObj [(js ''messages'', JArr []), (js ''text'', JStr [])]"

definition single_message :: json where
  "single_message = JObj [(js ''content'', JStr (js ''hi''))]"

text \<open>A \<open>fetch\<close> that throws \<open>e\<close>.\<close>

definition refuses :: "jsval \<Rightarrow> request \<Rightarrow> fetch_result" where
  "refuses e q = Rejects e"

text \<open>Three conversations; the first has no messages.\<close>

definition conv1 :: conversation where
  "conv1 = \<lparr>conv_id = js ''c1'', title = js ''One'', createdAt = Date 1, updatedAt = Date 1,
            messageCount = 0\<rparr>"

definition conv2 :: conversation where
  "conv2 = \<lparr>conv_id = js ''c2'', title = js ''Two'', createdAt = Date 2, updatedAt = Date 2,
            messageCount = 1\<rparr>"

definition conv3 :: conversation where
  "conv3 = \<lparr>conv_id = js ''c3'', title = js ''Three'', createdAt = Date 3, updatedAt = Date 3,
            messageCount = 1\<rparr>"

definition msg2 :: ChatMessage where
  "msg2 = \<lparr>msg_id = js ''m2'', content = js ''hello'', sender = js ''user'', timestamp = Date 2,
           attachments = None\<rparr>"

definition msg3 :: ChatMessage where
  "msg3 = \<lparr>msg_id = js ''m3'', content = js ''hi'', sender = js ''bot'', timestamp = Date 3,
           attachments = Some (Arr [])\<rparr>"

definition sample_load :: "jsstring \<Rightarrow> jsval + ChatMessage list" where
  "sample_load i =
     (if i = js ''c2'' then Inr [msg2] else if i = js ''c3'' then Inr [msg3] else Inr [])"

definition failing_load :: "jsstring \<Rightarrow> jsval + ChatMessage list" where
  "failing_load i = (if i = js ''c2'' then Inl (ErrorObj (js ''offline'')) else Inr [])"

definition sample_date :: "date \<Rightarrow> jsstring" where
  "sample_date d = (case d of Date n \<Rightarrow> js ''day '' @ digits (nat n) | InvalidDate \<Rightarrow> js ''Invalid Date'')"

section \<open>Properties of trimming and of the regular expression\<close>

text \<open>A string trims to the empty string exactly when it is blank.\<close>

lemma trim_blank: "(trim s = []) = list_all is_white_space s"
proof
  assume t: "trim s = []"
  then have a: "\<forall>x\<in>set (dropWhile is_white_space s). is_white_space x"
    by (simp add: trim_def)
  have "dropWhile is_white_space s = []"
  proof (cases "dropWhile is_white_space s")
    case Nil
    then show ?thesis .
  next
    case (Cons y ys)
    then have "\<not> is_white_space y" using hd_dropWhile [of is_white_space s] by simp
    with a Cons show ?thesis by simp
  qed
  then show "list_all is_white_space s" by (simp add: list_all_iff)
next
  assume "list_all is_white_space s"
  then have d: "dropWhile is_white_space s = []" by (simp add: list_all_iff)
  show "trim s = []" unfolding trim_def d by simp
qed

lemma regex_test_once:
  "regex_test ((x, Once) # r) s = (\<exists>c q. s = c # q \<and> atom_matches x c \<and> regex_test r q)"
  by (cases s) auto

lemma regex_test_plus:
  "regex_test ((x, OneOrMore) # r) s =
     (\<exists>p q. s = p @ q \<and> p \<noteq> [] \<and> list_all (atom_matches x) p \<and> regex_test r q)"
proof (induction s)
  case Nil
  then show ?case by simp
next
  case (Cons c s)
  show ?case
  proof
    assume "regex_test ((x, OneOrMore) # r) (c # s)"
    then have m: "atom_matches x c"
      and d: "regex_test ((x, OneOrMore) # r) s \<or> regex_test r s" by auto
    from d show "\<exists>p q. c # s = p @ q \<and> p \<noteq> [] \<and> list_all (atom_matches x) p \<and> regex_test r q"
    proof
      assume "regex_test ((x, OneOrMore) # r) s"
      with Cons.IH obtain p q where "s = p @ q" "list_all (atom_matches x) p" "regex_test r q"
        by blast
      with m show ?thesis by (intro exI [where x = "c # p"] exI [where x = q]) simp
    next
      assume "regex_test r s"
      with m show ?thesis by (intro exI [where x = "[c]"] exI [where x = s]) simp
    qed
  next
    assume "\<exists>p q. c # s = p @ q \<and> p \<noteq> [] \<and> list_all (atom_matches x) p \<and> regex_test r q"
    then obtain p q where pq: "c # s = p @ q" "p \<noteq> []" "list_all (atom_matches x) p"
      "regex_test r q" by blast
    then obtain p' where p': "p = c # p'" "s = p' @ q" by (cases p) auto
    have m: "atom_matches x c" using pq p' by simp
    show "regex_test ((x, OneOrMore) # r) (c # s)"
    proof (cases "p' = []")
      case True
      with p' pq m show ?thesis by simp
    next
      case False
      have "\<exists>p q. s = p @ q \<and> p \<noteq> [] \<and> list_all (atom_matches x) p \<and> regex_test r q"
        using False p' pq by (intro exI [where x = p'] exI [where x = q]) simp
      with Cons.IH have "regex_test ((x, OneOrMore) # r) s" by simp
      with m show ?thesis by simp
    qed
  qed
qed

text \<open>
  The strings that the e-mail pattern accepts: three non-empty parts without white
  space and \<open>@\<close>, the first two separated by \<open>@\<close>, the last two by a dot.
\<close>

lemma email_regex_language:
  "regex_test email_regex s =
     (\<exists>a b c. s = a @ [0x40] @ b @ [0x2E] @ c \<and> a \<noteq> [] \<and> b \<noteq> [] \<and> c \<noteq> [] \<and>
        list_all address_char a \<and> list_all address_char b \<and> list_all address_char c)"
proof -
  have am: "atom_matches (NegClass [Escape_s, Single 0x40]) = address_char"
    by (rule ext) (simp add: address_char_def)
  show ?thesis
    unfolding email_regex_def regex_test_plus regex_test_once am
  proof
    assume "\<exists>p q. s = p @ q \<and> p \<noteq> [] \<and> list_all address_char p \<and>
      (\<exists>c qa. q = c # qa \<and> atom_matches (Lit 0x40) c \<and>
        (\<exists>p q. qa = p @ q \<and> p \<noteq> [] \<and> list_all address_char p \<and>
          (\<exists>c qa. q = c # qa \<and> atom_matches (Lit 0x2E) c \<and>
            (\<exists>p q. qa = p @ q \<and> p \<noteq> [] \<and> list_all address_char p \<and> regex_test [] q))))"
    then obtain a b c where "s = a @ [0x40] @ b @ [0x2E] @ c" "a \<noteq> []" "b \<noteq> []" "c \<noteq> []"
      "list_all address_char a" "list_all address_char b" "list_all address_char c"
      by auto
    then show "\<exists>a b c. s = a @ [0x40] @ b @ [0x2E] @ c \<and> a \<noteq> [] \<and> b \<noteq> [] \<and> c \<noteq> [] \<and>
        list_all address_char a \<and> list_all address_char b \<and> list_all address_char c"
      by blast
  next
    assume "\<exists>a b c. s = a @ [0x40] @ b @ [0x2E] @ c \<and> a \<noteq> [] \<and> b \<noteq> [] \<and> c \<noteq> [] \<and>
        list_all address_char a \<and> list_all address_char b \<and> list_all address_char c"
    then obtain a b c where h: "s = a @ [0x40] @ b @ [0x2E] @ c" "a \<noteq> []" "b \<noteq> []" "c \<noteq> []"
      "list_all address_char a" "list_all address_char b" "list_all address_char c"
      by blast
    have 1: "\<exists>p q. c = p @ q \<and> p \<noteq> [] \<and> list_all address_char p \<and> regex_test [] q"
      using h by (intro exI [where x = c] exI [where x = "[]"]) simp
    have 2: "\<exists>p q. b @ [0x2E] @ c = p @ q \<and> p \<noteq> [] \<and> list_all address_char p \<and>
          (\<exists>c qa. q = c # qa \<and> atom_matches (Lit 0x2E) c \<and>
            (\<exists>p q. qa = p @ q \<and> p \<noteq> [] \<and> list_all address_char p \<and> regex_test [] q))"
      using h 1 by (intro exI [where x = b] exI [where x = "[0x2E] @ c"]) simp
    show "\<exists>p q. s = p @ q \<and> p \<noteq> [] \<and> list_all address_char p \<and>
      (\<exists>c qa. q = c # qa \<and> atom_matches (Lit 0x40) c \<and>
        (\<exists>p q. qa = p @ q \<and> p \<noteq> [] \<and> list_all address_char p \<and>
          (\<exists>c qa. q = c # qa \<and> atom_matches (Lit 0x2E) c \<and>
            (\<exists>p q. qa = p @ q \<and> p \<noteq> [] \<and> list_all address_char p \<and> regex_test [] q))))"
      using h 2 by (intro exI [where x = a] exI [where x = "[0x40] @ b @ [0x2E] @ c"]) simp
  qed
qed

section \<open>Properties of validateForm\<close>

lemma user_or_effective: "user_or u field other = effective u field other"
  by (cases u) (simp_all add: user_or_def effective_def)

lemma trim_Nil [simp]: "trim [] = []"
  by (simp add: trim_def)

lemma user_or_nonblank: "trim (field x) \<noteq> [] \<Longrightarrow> user_or (Some x) field other = field x"
  by (auto simp: user_or_def)

lemma err_file_None: "(err_file (newErrors u fd) = None) = file_ok fd"
  by (cases "file' fd") (auto simp: newErrors_def file_ok_def Let_def)

lemma error_keys_Nil:
  "(error_keys e = []) =
     (err_firstName e = None \<and> err_lastName e = None \<and> err_brandName e = None \<and>
      err_email e = None \<and> err_file e = None)"
  by (simp add: error_keys_def)

lemma validateForm_eq:
  "validateForm u st =
     (error_keys (newErrors u (formData st)) = [], st\<lparr>errors := newErrors u (formData st)\<rparr>)"
  by (simp add: validateForm_def Let_def)

text \<open>
  C2. \<open>validateForm\<close> returns true exactly when the four effective text fields are
  non-blank after trimming, the effective e-mail matches the regular expression, and a
  file is selected that is a PDF of at most \<open>10 * 1024 * 1024\<close> bytes. The errors it stores
  hold a message for a field exactly when that field fails its check.
\<close>

theorem validateForm_iff:
  "fst (validateForm u st) =
     (trim (effective u user_firstName (firstName (formData st))) \<noteq> [] \<and>
      trim (effective u user_lastName (lastName (formData st))) \<noteq> [] \<and>
      trim (effective u user_brandName (brandName (formData st))) \<noteq> [] \<and>
      trim (effective u user_email (email (formData st))) \<noteq> [] \<and>
      regex_test email_regex (effective u user_email (email (formData st))) \<and>
      file_ok (formData st))
   \<and> (err_firstName (errors (snd (validateForm u st))) = None) =
       (trim (effective u user_firstName (firstName (formData st))) \<noteq> [])
   \<and> (err_lastName (errors (snd (validateForm u st))) = None) =
       (trim (effective u user_lastName (lastName (formData st))) \<noteq> [])
   \<and> (err_brandName (errors (snd (validateForm u st))) = None) =
       (trim (effective u user_brandName (brandName (formData st))) \<noteq> [])
   \<and> (err_email (errors (snd (validateForm u st))) = None) =
       (trim (effective u user_email (email (formData st))) \<noteq> [] \<and>
        regex_test email_regex (effective u user_email (email (formData st))))
   \<and> (err_file (errors (snd (validateForm u st))) = None) = file_ok (formData st)"
proof -
  let ?e = "newErrors u (formData st)"
  have f1: "(err_firstName ?e = None) =
      (trim (effective u user_firstName (firstName (formData st))) \<noteq> [])"
    by (simp add: newErrors_def Let_def user_or_effective)
  have f2: "(err_lastName ?e = None) =
      (trim (effective u user_lastName (lastName (formData st))) \<noteq> [])"
    by (simp add: newErrors_def Let_def user_or_effective)
  have f3: "(err_brandName ?e = None) =
      (trim (effective u user_brandName (brandName (formData st))) \<noteq> [])"
    by (simp add: newErrors_def Let_def user_or_effective)
  have f4: "(err_email ?e = None) =
      (trim (effective u user_email (email (formData st))) \<noteq> [] \<and>
       regex_test email_regex (effective u user_email (email (formData st))))"
    by (simp add: newErrors_def Let_def user_or_effective)
  have f5: "(err_file ?e = None) = file_ok (formData st)"
    by (rule err_file_None)
  show ?thesis
    unfolding validateForm_eq fst_conv snd_conv error_keys_Nil
    using f1 f2 f3 f4 f5 by simp
qed

lemma newErrors_logged_in:
  assumes "trim (user_firstName x) \<noteq> []" and "trim (user_lastName x) \<noteq> []"
    and "trim (user_brandName x) \<noteq> []" and "trim (user_email x) \<noteq> []"
    and "regex_test email_regex (user_email x)"
  shows "err_firstName (newErrors (Some x) fd) = None"
    and "err_lastName (newErrors (Some x) fd) = None"
    and "err_brandName (newErrors (Some x) fd) = None"
    and "err_email (newErrors (Some x) fd) = None"
    and "file' fd = file' fd' \<Longrightarrow> newErrors (Some x) fd = newErrors (Some x) fd'"
  using assms by (simp_all add: newErrors_def Let_def user_or_nonblank)

text \<open>
  C10. For a logged-in user whose four profile fields are non-blank and whose e-mail
  matches the regular expression, \<open>validateForm\<close> returns true exactly when the file checks
  pass, and two states with the same selected file give the same result and the same
  errors, whatever the text fields of their forms hold.
\<close>

theorem validateForm_logged_in:
  assumes "trim (user_firstName x) \<noteq> []" and "trim (user_lastName x) \<noteq> []"
    and "trim (user_brandName x) \<noteq> []" and "trim (user_email x) \<noteq> []"
    and "regex_test email_regex (user_email x)"
  shows "fst (validateForm (Some x) st) = file_ok (formData st) \<and>
         (file' (formData st) = file' (formData st') \<longrightarrow>
            fst (validateForm (Some x) st) = fst (validateForm (Some x) st') \<and>
            errors (snd (validateForm (Some x) st)) = errors (snd (validateForm (Some x) st')))"
proof -
  note e = newErrors_logged_in [OF assms]
  have a: "fst (validateForm (Some x) st) = file_ok (formData st)"
    by (simp add: validateForm_eq error_keys_Nil e(1-4) err_file_None)
  have b: "file' (formData st) = file' (formData st') \<Longrightarrow>
      newErrors (Some x) (formData st) = newErrors (Some x) (formData st')"
    by (rule e(5))
  show ?thesis using a b by (simp add: validateForm_eq)
qed

lemma ann_valid:
  "trim (user_firstName ann) \<noteq> []" "trim (user_lastName ann) \<noteq> []"
  "trim (user_brandName ann) \<noteq> []" "trim (user_email ann) \<noteq> []"
  "regex_test email_regex (user_email ann)"
  by (simp_all add: ann_def js_def trim_def email_regex_def is_white_space_def white_space_def)

theorem validateForm_logged_in_witness:
  "trim (user_firstName ann) \<noteq> [] \<and> trim (user_lastName ann) \<noteq> [] \<and>
   trim (user_brandName ann) \<noteq> [] \<and> trim (user_email ann) \<noteq> [] \<and>
   regex_test email_regex (user_email ann) \<and>
   file' (formData ((initial_state [])\<lparr>formData := blank_form\<rparr>)) =
     file' (formData ((initial_state [])\<lparr>formData := ann_form\<rparr>)) \<and>
   fst (validateForm (Some ann) ((initial_state [])\<lparr>formData := blank_form\<rparr>)) \<and>
   fst (validateForm (Some ann) ((initial_state [])\<lparr>formData := ann_form\<rparr>))"
proof -
  have f: "file_ok (formData ((initial_state [])\<lparr>formData := blank_form\<rparr>))"
    by (simp add: file_ok_def blank_form_def pdf_def)
  have g: "file' (formData ((initial_state [])\<lparr>formData := blank_form\<rparr>)) =
     file' (formData ((initial_state [])\<lparr>formData := ann_form\<rparr>))"
    by (simp add: blank_form_def ann_form_def)
  note v = validateForm_logged_in [OF ann_valid, of "(initial_state [])\<lparr>formData := blank_form\<rparr>"
      "(initial_state [])\<lparr>formData := ann_form\<rparr>"]
  have a: "fst (validateForm (Some ann) ((initial_state [])\<lparr>formData := blank_form\<rparr>))"
    using v f by blast
  have b: "fst (validateForm (Some ann) ((initial_state [])\<lparr>formData := ann_form\<rparr>))"
    using v g a by blast
  show ?thesis using ann_valid g a b by blast
qed

section \<open>Properties of the history handlers\<close>

lemma load_all_throws:
  "\<exists>c\<in>set cs. isl (load (conv_id c)) \<Longrightarrow> isl (fst (load_all load fmt cs acc st))"
proof (induction cs arbitrary: acc st)
  case Nil
  then show ?case by simp
next
  case (Cons c cs)
  show ?case
  proof (cases "load (conv_id c)")
    case (Inl e)
    then show ?thesis by (simp add: Let_def)
  next
    case (Inr ms)
    with Cons.prems have "\<exists>c\<in>set cs. isl (load (conv_id c))" by auto
    from Cons.IH [OF this] Inr show ?thesis by (simp add: Let_def)
  qed
qed

text \<open>
  C5. Without a user, or when the session is not authenticated, both handlers return the
  empty list and leave the state as it is: no hook is called. When a call of
  \<open>loadConversationMessages\<close> for one of the conversations throws, or the call of
  \<open>loadN8NChatHistory\<close> throws, the handler returns the empty list.
\<close>

theorem history_handlers_empty:
  "(u = None \<or> \<not> isAuthenticated \<longrightarrow>
      handleLoadAllHistory u isAuthenticated convs load fmt st = ([], st) \<and>
      handleLoadN8NHistory u isAuthenticated n8n st = ([], st))
   \<and> ((\<exists>c\<in>set convs. isl (load (conv_id c))) \<longrightarrow>
        fst (handleLoadAllHistory u isAuthenticated convs load fmt st) = [])
   \<and> (isl n8n \<longrightarrow> fst (handleLoadN8NHistory u isAuthenticated n8n st) = [])"
proof -
  have a: "fst (handleLoadAllHistory u isAuthenticated convs load fmt st) = []"
    if "\<exists>c\<in>set convs. isl (load (conv_id c))"
  proof -
    from that have "isl (fst (load_all load fmt convs [] st))" by (rule load_all_throws)
    then show ?thesis
      by (cases "load_all load fmt convs [] st") (auto simp: handleLoadAllHistory_def isl_def)
  qed
  have b: "isl n8n \<Longrightarrow> fst (handleLoadN8NHistory u isAuthenticated n8n st) = []"
    by (auto simp: handleLoadN8NHistory_def Let_def isl_def)
  show ?thesis using a b by (auto simp: handleLoadAllHistory_def handleLoadN8NHistory_def)
qed

theorem history_handlers_empty_witness:
  "handleLoadAllHistory None True [conv1, conv2] sample_load sample_date (initial_state []) =
     ([], initial_state []) \<and>
   handleLoadN8NHistory None True (Inr [msg2]) (initial_state []) = ([], initial_state []) \<and>
   list_ex (\<lambda>c. isl (failing_load (conv_id c))) [conv1, conv2] \<and>
   fst (handleLoadAllHistory (Some ann) True [conv1, conv2] failing_load sample_date
          (initial_state [])) = [] \<and>
   isl (Inl (ErrorObj (js ''offline'')) :: jsval + ChatMessage list) \<and>
   fst (handleLoadN8NHistory (Some ann) True (Inl (ErrorObj (js ''offline''))) (initial_state []))
     = []"
proof -
  have t: "\<exists>c\<in>set [conv1, conv2]. isl (failing_load (conv_id c))"
    by (simp add: failing_load_def conv2_def)
  have i: "isl (Inl (ErrorObj (js ''offline'')) :: jsval + ChatMessage list)" by simp
  note h1 = history_handlers_empty [of None True "[conv1, conv2]" sample_load sample_date
      "initial_state []" "Inr [msg2]"]
  note h2 = history_handlers_empty [of "Some ann" True "[conv1, conv2]" failing_load sample_date
      "initial_state []" "Inl (ErrorObj (js ''offline''))"]
  have a: "handleLoadAllHistory None True [conv1, conv2] sample_load sample_date (initial_state [])
      = ([], initial_state [])"
    using h1 by blast
  have b: "handleLoadN8NHistory None True (Inr [msg2]) (initial_state []) = ([], initial_state [])"
    using h1 by blast
  have c: "fst (handleLoadAllHistory (Some ann) True [conv1, conv2] failing_load sample_date
          (initial_state [])) = []"
    using h2 t by blast
  have d: "fst (handleLoadN8NHistory (Some ann) True (Inl (ErrorObj (js ''offline'')))
          (initial_state [])) = []"
    using h2 i by blast
  have e: "list_ex (\<lambda>c. isl (failing_load (conv_id c))) [conv1, conv2]"
    using t by (simp add: list_ex_iff)
  show ?thesis using a b c d e i by blast
qed

lemma load_all_append:
  "load_all load fmt (xs @ ys) acc st =
     (case load_all load fmt xs acc st of
        (Inl e, st1) \<Rightarrow> (Inl e, st1)
      | (Inr acc1, st1) \<Rightarrow> load_all load fmt ys acc1 st1)"
  by (induction xs arbitrary: acc st) (auto simp: Let_def split: sum.splits)

lemma load_all_succeeds:
  "\<forall>c\<in>set cs. \<not> isl (load (conv_id c)) \<Longrightarrow>
     \<exists>r st1. load_all load fmt cs acc st = (Inr (acc @ r), st1)"
proof (induction cs arbitrary: acc st)
  case Nil
  then show ?case by simp
next
  case (Cons c cs)
  then obtain ms where ms: "load (conv_id c) = Inr ms" by (cases "load (conv_id c)") auto
  from Cons.prems have "\<forall>c\<in>set cs. \<not> isl (load (conv_id c))" by simp
  from Cons.IH [OF this] ms show ?case
    by (simp add: Let_def) (metis append.assoc)
qed

lemma load_all_Nil_iff:
  "\<forall>c\<in>set cs. \<not> isl (load (conv_id c)) \<Longrightarrow>
     (fst (load_all load fmt cs [] st) = Inr []) = (\<forall>c\<in>set cs. messages_of load c = [])"
proof (induction cs arbitrary: st)
  case Nil
  then show ?case by simp
next
  case (Cons c cs)
  then obtain ms where ms: "load (conv_id c) = Inr ms" by (cases "load (conv_id c)") auto
  from Cons.prems have rest: "\<forall>c\<in>set cs. \<not> isl (load (conv_id c))" by simp
  show ?case
  proof (cases ms)
    case Nil
    with ms Cons.IH [OF rest] show ?thesis by (simp add: Let_def messages_of_def)
  next
    case (Cons m ms')
    from load_all_succeeds [OF rest]
    obtain r st1 where
      "load_all load fmt cs (map history_message ms)
         (st\<lparr>history_calls := history_calls st @ [LoadConversationMessages (conv_id c)]\<rparr>) =
       (Inr (map history_message ms @ r), st1)"
      by blast
    with ms Cons show ?thesis by (simp add: Let_def messages_of_def)
  qed
qed

text \<open>
  C8. Let every call of the hook for the conversations return. In the list that
  \<open>handleLoadAllHistory\<close> returns, the messages of a conversation \<open>c\<close> come right after
  \<open>before\<close>, the list returned for the conversations ahead of \<open>c\<close>, with the separator of
  \<open>c\<close> between them exactly when \<open>before\<close> is not empty. \<open>before\<close> is empty exactly when
  every conversation ahead of \<open>c\<close> has no messages: so there is no separator for the first
  conversation, nor for one that follows only empty conversations. The separator is a
  message of the sender \<open>bot\<close> whose content holds the title and the creation date of \<open>c\<close>.
\<close>

theorem separator_placement:
  assumes "\<forall>x\<in>set (pre @ c # post). \<not> isl (load (conv_id x))"
  shows "\<exists>before after.
      fst (handleLoadAllHistory (Some x) True pre load fmt st) = before \<and>
      fst (handleLoadAllHistory (Some x) True (pre @ c # post) load fmt st) =
        before @ (if before = [] then [] else [separator fmt c]) @
        map history_message (messages_of load c) @ after \<and>
      (before = []) = (\<forall>x\<in>set pre. messages_of load x = []) \<and>
      property_of (separator fmt c) ''sender'' = Str (js ''bot'') \<and>
      property_of (separator fmt c) ''content'' =
        Str (js ''--- '' @ title c @ js '' ('' @ fmt (createdAt c) @ js '') ---'')"
proof -
  from assms have p: "\<forall>x\<in>set pre. \<not> isl (load (conv_id x))"
    and q: "\<forall>x\<in>set post. \<not> isl (load (conv_id x))" by auto
  from assms obtain ms where ms: "load (conv_id c) = Inr ms" by (cases "load (conv_id c)") auto
  from load_all_succeeds [OF p, of fmt "[]" st]
  obtain before st1 where b: "load_all load fmt pre [] st = (Inr before, st1)" by auto
  let ?st2 = "st1\<lparr>history_calls := history_calls st1 @ [LoadConversationMessages (conv_id c)]\<rparr>"
  let ?acc = "(if before = [] then [] else [separator fmt c]) @ map history_message ms"
  from load_all_succeeds [OF q, of fmt "before @ ?acc" ?st2]
  obtain after st3 where a: "load_all load fmt post (before @ ?acc) ?st2 = (Inr ((before @ ?acc) @ after), st3)"
    by blast
  have whole: "load_all load fmt (pre @ c # post) [] st = (Inr (before @ ?acc @ after), st3)"
    using a b ms by (cases "before = []") (simp_all add: load_all_append Let_def)
  have e: "(before = []) = (\<forall>x\<in>set pre. messages_of load x = [])"
    using load_all_Nil_iff [OF p, of fmt st] b by simp
  have s: "property_of (separator fmt c) ''sender'' = Str (js ''bot'')"
    "property_of (separator fmt c) ''content'' =
        Str (js ''--- '' @ title c @ js '' ('' @ fmt (createdAt c) @ js '') ---'')"
    by (simp_all add: separator_def get_prop_def js_def)
  show ?thesis
    using b whole e ms s by (simp add: handleLoadAllHistory_def messages_of_def)
qed

lemma sample_run:
  "fst (handleLoadAllHistory (Some ann) True [conv1, conv2, conv3] sample_load sample_date
     (initial_state [])) = [history_message msg2, separator sample_date conv3, history_message msg3]"
  by (simp add: handleLoadAllHistory_def Let_def sample_load_def conv1_def conv2_def conv3_def js_def)

theorem separator_placement_witness:
  "list_all (\<lambda>x. \<not> isl (sample_load (conv_id x))) ([conv1] @ conv2 # [conv3]) \<and>
   list_all (\<lambda>x. \<not> isl (sample_load (conv_id x))) ([conv1, conv2] @ conv3 # []) \<and>
   fst (handleLoadAllHistory (Some ann) True [conv1] sample_load sample_date (initial_state [])) = [] \<and>
   fst (handleLoadAllHistory (Some ann) True [conv1, conv2] sample_load sample_date
     (initial_state [])) = [history_message msg2] \<and>
   fst (handleLoadAllHistory (Some ann) True [conv1, conv2, conv3] sample_load sample_date
     (initial_state [])) = [history_message msg2, separator sample_date conv3, history_message msg3] \<and>
   (\<exists>after.
      fst (handleLoadAllHistory (Some ann) True ([conv1] @ conv2 # [conv3]) sample_load sample_date
        (initial_state [])) =
      [] @ [] @ map history_message (messages_of sample_load conv2) @ after) \<and>
   (\<exists>after.
      fst (handleLoadAllHistory (Some ann) True ([conv1, conv2] @ conv3 # []) sample_load
        sample_date (initial_state [])) =
      [history_message msg2] @ [separator sample_date conv3] @
      map history_message (messages_of sample_load conv3) @ after)"
proof -
  have h1: "\<forall>x\<in>set ([conv1] @ conv2 # [conv3]). \<not> isl (sample_load (conv_id x))"
    by (simp add: sample_load_def)
  have h2: "\<forall>x\<in>set ([conv1, conv2] @ conv3 # []). \<not> isl (sample_load (conv_id x))"
    by (simp add: sample_load_def)
  have r1: "fst (handleLoadAllHistory (Some ann) True [conv1] sample_load sample_date
      (initial_state [])) = []"
    by (simp add: handleLoadAllHistory_def Let_def sample_load_def conv1_def js_def)
  have r2: "fst (handleLoadAllHistory (Some ann) True [conv1, conv2] sample_load sample_date
      (initial_state [])) = [history_message msg2]"
    by (simp add: handleLoadAllHistory_def Let_def sample_load_def conv1_def conv2_def js_def)
  from separator_placement [OF h1, of ann sample_date "initial_state []"] r1
  have w1: "\<exists>after.
      fst (handleLoadAllHistory (Some ann) True ([conv1] @ conv2 # [conv3]) sample_load sample_date
        (initial_state [])) =
      [] @ [] @ map history_message (messages_of sample_load conv2) @ after"
    by auto
  from separator_placement [OF h2, of ann sample_date "initial_state []"] r2
  have w2: "\<exists>after.
      fst (handleLoadAllHistory (Some ann) True ([conv1, conv2] @ conv3 # []) sample_load
        sample_date (initial_state [])) =
      [history_message msg2] @ [separator sample_date conv3] @
      map history_message (messages_of sample_load conv3) @ after"
    by auto
  show ?thesis
    using h1 h2 r1 r2 sample_run w1 w2 unfolding list_all_iff by blast
qed

section \<open>The fields of the messages\<close>

lemma js_Nil_iff [simp]: "(js s = []) = (s = [])"
  by (simp add: js_def)














section \<open>Properties of handleSubmit\<close>

lemma js_includes_prefix: "js_includes (sub @ b) sub"
proof (cases "sub @ b")
  case Nil
  then show ?thesis by simp
next
  case (Cons c s)
  have t: "take (length sub) (sub @ b) = sub" by simp
  show ?thesis unfolding Cons using t [unfolded Cons] by simp
qed

lemma js_includes_middle: "js_includes (a @ sub @ b) sub"
  by (induction a) (auto simp: js_includes_prefix)

lemma validateForm_file: "fst (validateForm u st) \<Longrightarrow> \<exists>f. file' (formData st) = Some f"
  by (auto simp: validateForm_eq error_keys_Nil err_file_None file_ok_def)

lemma handleSubmit_invalid:
  "\<not> fst (validateForm u st) \<Longrightarrow> handleSubmit u fetch st = st\<lparr>errors := newErrors u (formData st)\<rparr>"
  by (simp add: handleSubmit_def validateForm_eq)

lemma handleSubmit_valid:
  "fst (validateForm u st) \<Longrightarrow>
     handleSubmit u fetch st =
       (submit_try u fetch (formData st)
          (st\<lparr>errors := newErrors u (formData st), isSubmitting := True, submitStatus := Idle\<rparr>))
         \<lparr>isSubmitting := False\<rparr>"
  by (simp add: handleSubmit_def validateForm_eq)

lemmas submit_defs = submit_try_def submit_catch_def console_log_def console_error_def Let_def

lemma submit_try_requests:
  "file' fd = Some f \<Longrightarrow> requests (submit_try u fetch fd st) = requests st @ [upload_request u fd]"
  by (simp add: submit_defs split: fetch_result.splits sum.splits)

lemma submit_try_rejects:
  "file' fd = Some f \<Longrightarrow> fetch (upload_request u fd) = Rejects e \<Longrightarrow>
     submitStatus (submit_try u fetch fd st) = Error \<and>
     submitMessage (submit_try u fetch fd st) = failure_message e \<and>
     formData (submit_try u fetch fd st) = formData st"
  by (simp add: submit_defs)

lemma submit_try_not_ok:
  "file' fd = Some f \<Longrightarrow> fetch (upload_request u fd) = Resolves r \<Longrightarrow> \<not> ok r \<Longrightarrow>
     submitStatus (submit_try u fetch fd st) = Error \<and>
     submitMessage (submit_try u fetch fd st) =
       failure_message (case text_result r of Inl e \<Rightarrow> e
                        | Inr responseText \<Rightarrow> ErrorObj (upload_failed r responseText)) \<and>
     formData (submit_try u fetch fd st) = formData st"
  by (simp add: submit_defs split: sum.splits)

lemma submit_try_ok:
  "file' fd = Some f \<Longrightarrow> fetch (upload_request u fd) = Resolves r \<Longrightarrow> ok r \<Longrightarrow>
     submitStatus (submit_try u fetch fd st) = Success \<and>
     submitMessage (submit_try u fetch fd st) = success_message \<and>
     formData (submit_try u fetch fd st) = emptyForm \<and>
     timers (submit_try u fetch fd st) = timers st @ [(3000, CloseUploadForm)]"
  by (simp add: submit_defs)

lemma submit_try_console:
  "file' fd = Some f \<Longrightarrow>
     \<exists>rest. console (submit_try u fetch fd st) =
       console st @
       [(Log, [Str (js ''Sending document upload to:''),
               Str (js ''https://iamfashion.app.n8n.cloud/webhook/document-upload'')]),
        (Log, [Str (js ''Upload data:''), upload_data u (userId st) fd f])] @ rest"
  by (simp add: submit_defs split: fetch_result.splits sum.splits)

lemma failure_message_includes: "js_includes (failure_message e) (error_message e)"
  unfolding failure_message_def
  using js_includes_middle [of "[0xE2, 0x152] @ js '' Failed to upload document: ''"
      "error_message e" "js ''. Please try again.''"]
  by simp

lemma upload_failed_includes: "js_includes (failure_message (ErrorObj (upload_failed r t))) (digits (status r))"
proof -
  have "failure_message (ErrorObj (upload_failed r t)) =
      ([0xE2, 0x152] @ js '' Failed to upload document: '' @ js ''Upload failed ('') @
      digits (status r) @
      (js ''): '' @ (if t \<noteq> [] then t else statusText r) @ js ''. Please try again.'')"
    by (simp add: failure_message_def upload_failed_def)
  then show ?thesis by (simp only: js_includes_middle)
qed

text \<open>
  C3, as amended. A submission issues no request or exactly one, the upload request. When
  \<open>fetch\<close> throws, when the response is not ok, and when reading the body of such a
  response throws, \<open>submitStatus\<close> becomes \<open>error\<close> and \<open>submitMessage\<close> holds the message of
  the error. For a response that is not ok and whose body was read, that message holds
  the HTTP status; when reading the body throws, it is the message of that error instead.
\<close>

theorem handleSubmit_error_surfaced:
  "(requests (handleSubmit u fetch st) = requests st \<or>
    requests (handleSubmit u fetch st) = requests st @ [upload_request u (formData st)])
   \<and> (fst (validateForm u st) \<and> fetch (upload_request u (formData st)) = Rejects e \<longrightarrow>
        requests (handleSubmit u fetch st) = requests st @ [upload_request u (formData st)] \<and>
        submitStatus (handleSubmit u fetch st) = Error \<and>
        submitMessage (handleSubmit u fetch st) = failure_message e \<and>
        js_includes (submitMessage (handleSubmit u fetch st)) (error_message e))
   \<and> (fst (validateForm u st) \<and> fetch (upload_request u (formData st)) = Resolves r \<and>
        \<not> ok r \<and> text_result r = Inr t \<longrightarrow>
        requests (handleSubmit u fetch st) = requests st @ [upload_request u (formData st)] \<and>
        submitStatus (handleSubmit u fetch st) = Error \<and>
        submitMessage (handleSubmit u fetch st) = failure_message (ErrorObj (upload_failed r t)) \<and>
        js_includes (submitMessage (handleSubmit u fetch st)) (upload_failed r t) \<and>
        js_includes (submitMessage (handleSubmit u fetch st)) (digits (status r)))
   \<and> (fst (validateForm u st) \<and> fetch (upload_request u (formData st)) = Resolves r \<and>
        \<not> ok r \<and> text_result r = Inl e \<longrightarrow>
        requests (handleSubmit u fetch st) = requests st @ [upload_request u (formData st)] \<and>
        submitStatus (handleSubmit u fetch st) = Error \<and>
        submitMessage (handleSubmit u fetch st) = failure_message e \<and>
        js_includes (submitMessage (handleSubmit u fetch st)) (error_message e))"
proof (cases "fst (validateForm u st)")
  case False
  then show ?thesis by (simp add: handleSubmit_invalid)
next
  case True
  then obtain f where f: "file' (formData st) = Some f" using validateForm_file by blast
  note v = handleSubmit_valid [OF True]
  have req: "requests (handleSubmit u fetch st) = requests st @ [upload_request u (formData st)]"
    by (simp add: v submit_try_requests [OF f])
  have a: "fetch (upload_request u (formData st)) = Rejects e \<Longrightarrow>
      submitStatus (handleSubmit u fetch st) = Error \<and>
      submitMessage (handleSubmit u fetch st) = failure_message e"
    using submit_try_rejects [OF f] by (simp add: v)
  have b: "fetch (upload_request u (formData st)) = Resolves r \<Longrightarrow> \<not> ok r \<Longrightarrow>
      text_result r = Inr t \<Longrightarrow>
      submitStatus (handleSubmit u fetch st) = Error \<and>
      submitMessage (handleSubmit u fetch st) = failure_message (ErrorObj (upload_failed r t))"
    using submit_try_not_ok [OF f, of fetch u r] by (simp add: v)
  have c: "fetch (upload_request u (formData st)) = Resolves r \<Longrightarrow> \<not> ok r \<Longrightarrow>
      text_result r = Inl e \<Longrightarrow>
      submitStatus (handleSubmit u fetch st) = Error \<and>
      submitMessage (handleSubmit u fetch st) = failure_message e"
    using submit_try_not_ok [OF f, of fetch u r] by (simp add: v)
  have i: "js_includes (failure_message (ErrorObj (upload_failed r t))) (upload_failed r t)"
    using failure_message_includes [of "ErrorObj (upload_failed r t)"] by simp
  show ?thesis
    using req a b c i failure_message_includes [of e] upload_failed_includes [of r t] by auto
qed

lemma ann_state_valid: "fst (validateForm (Some ann) ann_state)"
  using newErrors_logged_in(1-4) [OF ann_valid, of "formData ann_state"]
  by (simp add: validateForm_eq error_keys_Nil err_file_None file_ok_def ann_state_def
      ann_form_def pdf_def)

lemma initial_state_invalid: "\<not> fst (validateForm None (initial_state uid))"
  by (simp add: validateForm_eq error_keys_Nil err_file_None file_ok_def initial_state_def
      emptyForm_def)

lemma digits_500: "digits 500 = js ''500''"
  by (simp add: digits.simps js_def)

theorem handleSubmit_error_surfaced_witness:
  "fst (validateForm (Some ann) ann_state) \<and>
   refuses (ErrorObj (js ''Failed to fetch'')) (upload_request (Some ann) (formData ann_state)) =
     Rejects (ErrorObj (js ''Failed to fetch'')) \<and>
   submitStatus (handleSubmit (Some ann) (refuses (ErrorObj (js ''Failed to fetch''))) ann_state)
     = Error \<and>
   submitMessage (handleSubmit (Some ann) (refuses (ErrorObj (js ''Failed to fetch''))) ann_state)
     = [0xE2, 0x152] @ js '' Failed to upload document: Failed to fetch. Please try again.'' \<and>
   answers error_response (upload_request (Some ann) (formData ann_state)) =
     Resolves error_response \<and>
   \<not> ok error_response \<and> text_result error_response = Inr (js ''disk full'') \<and>
   requests (handleSubmit (Some ann) (answers error_response) ann_state) =
     [upload_request (Some ann) ann_form] \<and>
   submitStatus (handleSubmit (Some ann) (answers error_response) ann_state) = Error \<and>
   submitMessage (handleSubmit (Some ann) (answers error_response) ann_state) =
     [0xE2, 0x152] @
     js '' Failed to upload document: Upload failed (500): disk full. Please try again.'' \<and>
   answers unreadable_response (upload_request (Some ann) (formData ann_state)) =
     Resolves unreadable_response \<and>
   \<not> ok unreadable_response \<and>
   text_result unreadable_response = Inl (ErrorObj (js ''network error'')) \<and>
   submitStatus (handleSubmit (Some ann) (answers unreadable_response) ann_state) = Error \<and>
   submitMessage (handleSubmit (Some ann) (answers unreadable_response) ann_state) =
     [0xE2, 0x152] @ js '' Failed to upload document: network error. Please try again.''"
proof -
  note v = ann_state_valid
  have f1: "refuses (ErrorObj (js ''Failed to fetch'')) (upload_request (Some ann) (formData ann_state))
      = Rejects (ErrorObj (js ''Failed to fetch''))"
    by (simp add: refuses_def)
  have f2: "answers error_response (upload_request (Some ann) (formData ann_state)) =
      Resolves error_response"
    by (simp add: answers_def)
  have f3: "answers unreadable_response (upload_request (Some ann) (formData ann_state)) =
      Resolves unreadable_response"
    by (simp add: answers_def)
  have n2: "\<not> ok error_response" "text_result error_response = Inr (js ''disk full'')"
    by (simp_all add: error_response_def)
  have n3: "\<not> ok unreadable_response"
    "text_result unreadable_response = Inl (ErrorObj (js ''network error''))"
    by (simp_all add: unreadable_response_def)
  from handleSubmit_error_surfaced [where u = "Some ann" and st = ann_state
      and fetch = "refuses (ErrorObj (js ''Failed to fetch''))"
      and e = "ErrorObj (js ''Failed to fetch'')"] v f1
  have c1: "submitStatus (handleSubmit (Some ann) (refuses (ErrorObj (js ''Failed to fetch'')))
        ann_state) = Error"
    "submitMessage (handleSubmit (Some ann) (refuses (ErrorObj (js ''Failed to fetch''))) ann_state)
     = [0xE2, 0x152] @ js '' Failed to upload document: Failed to fetch. Please try again.''"
    by (simp_all add: failure_message_def js_def)
  from handleSubmit_error_surfaced [where u = "Some ann" and st = ann_state
      and fetch = "answers error_response" and r = error_response and t = "js ''disk full''"]
    v f2 n2
  have c2: "requests (handleSubmit (Some ann) (answers error_response) ann_state) =
     [upload_request (Some ann) ann_form]"
    "submitStatus (handleSubmit (Some ann) (answers error_response) ann_state) = Error"
    "submitMessage (handleSubmit (Some ann) (answers error_response) ann_state) =
     [0xE2, 0x152] @
     js '' Failed to upload document: Upload failed (500): disk full. Please try again.''"
    by (simp_all add: failure_message_def upload_failed_def error_response_def digits_500
        ann_state_def initial_state_def) (simp_all add: js_def)
  from handleSubmit_error_surfaced [where u = "Some ann" and st = ann_state
      and fetch = "answers unreadable_response" and r = unreadable_response
      and e = "ErrorObj (js ''network error'')"] v f3 n3
  have c3: "submitStatus (handleSubmit (Some ann) (answers unreadable_response) ann_state) = Error"
    "submitMessage (handleSubmit (Some ann) (answers unreadable_response) ann_state) =
     [0xE2, 0x152] @ js '' Failed to upload document: network error. Please try again.''"
    by (simp_all add: failure_message_def js_def)
  show ?thesis using v f1 f2 f3 n2 n3 c1 c2 c3 by blast
qed

text \<open>
  The claim as stated fails where the body of a response that is not ok cannot be read:
  the message shown does not hold the HTTP status.
\<close>

theorem handleSubmit_status_not_shown:
  "fst (validateForm (Some ann) ann_state) \<and>
   answers unreadable_response (upload_request (Some ann) (formData ann_state)) =
     Resolves unreadable_response \<and>
   \<not> ok unreadable_response \<and> status unreadable_response = 500 \<and>
   submitMessage (handleSubmit (Some ann) (answers unreadable_response) ann_state) =
     [0xE2, 0x152] @ js '' Failed to upload document: network error. Please try again.'' \<and>
   \<not> js_includes (submitMessage (handleSubmit (Some ann) (answers unreadable_response) ann_state))
        (digits 500)"
proof -
  note v = ann_state_valid
  have f: "file' (formData ann_state) = Some pdf"
    by (simp add: ann_state_def ann_form_def)
  have a: "answers unreadable_response (upload_request (Some ann) (formData ann_state)) =
      Resolves unreadable_response"
    by (simp add: answers_def)
  have n: "\<not> ok unreadable_response" "status unreadable_response = 500"
    "text_result unreadable_response = Inl (ErrorObj (js ''network error''))"
    by (simp_all add: unreadable_response_def)
  have m: "submitMessage (handleSubmit (Some ann) (answers unreadable_response) ann_state) =
     [0xE2, 0x152] @ js '' Failed to upload document: network error. Please try again.''"
    using submit_try_not_ok [where fetch = "answers unreadable_response" and u = "Some ann",
        OF f a n(1)]
    by (simp add: handleSubmit_valid [OF v] n(3) failure_message_def js_def)
  have i: "\<not> js_includes
      ([0xE2, 0x152] @ js '' Failed to upload document: network error. Please try again.'')
      (digits 500)"
    by (simp add: digits_500) (simp add: js_def)
  show ?thesis using v a n(1,2) m i by simp
qed

text \<open>
  C4. When the form does not pass \<open>validateForm\<close>, when \<open>fetch\<close> throws and when the
  response is not ok, \<open>handleSubmit\<close> leaves \<open>formData\<close> as it was. When the response is ok,
  \<open>formData\<close> has empty text fields and no file, \<open>submitStatus\<close> is \<open>success\<close>, and one timer
  of 3000 milliseconds is added whose closure closes the upload form and resets
  \<open>submitStatus\<close> and \<open>submitMessage\<close>.
\<close>

theorem handleSubmit_formData:
  "(\<not> fst (validateForm u st) \<longrightarrow> formData (handleSubmit u fetch st) = formData st)
   \<and> (fetch (upload_request u (formData st)) = Rejects e \<longrightarrow>
        formData (handleSubmit u fetch st) = formData st)
   \<and> (fetch (upload_request u (formData st)) = Resolves r \<and> \<not> ok r \<longrightarrow>
        formData (handleSubmit u fetch st) = formData st)
   \<and> (fst (validateForm u st) \<and> fetch (upload_request u (formData st)) = Resolves r \<and> ok r \<longrightarrow>
        formData (handleSubmit u fetch st) =
          \<lparr>firstName = [], lastName = [], brandName = [], email = [], file' = None\<rparr> \<and>
        submitStatus (handleSubmit u fetch st) = Success \<and>
        timers (handleSubmit u fetch st) = timers st @ [(3000, CloseUploadForm)] \<and>
        showUploadForm (run_callback CloseUploadForm (handleSubmit u fetch st)) = False \<and>
        submitStatus (run_callback CloseUploadForm (handleSubmit u fetch st)) = Idle \<and>
        submitMessage (run_callback CloseUploadForm (handleSubmit u fetch st)) = [])"
proof (cases "fst (validateForm u st)")
  case False
  then show ?thesis by (simp add: handleSubmit_invalid)
next
  case True
  then obtain f where f: "file' (formData st) = Some f" using validateForm_file by blast
  note v = handleSubmit_valid [OF True]
  have a: "fetch (upload_request u (formData st)) = Rejects e \<Longrightarrow>
      formData (handleSubmit u fetch st) = formData st"
    using submit_try_rejects [OF f] by (simp add: v)
  have b: "fetch (upload_request u (formData st)) = Resolves r \<Longrightarrow> \<not> ok r \<Longrightarrow>
      formData (handleSubmit u fetch st) = formData st"
    using submit_try_not_ok [OF f, of fetch u r] by (simp add: v)
  have c: "fetch (upload_request u (formData st)) = Resolves r \<Longrightarrow> ok r \<Longrightarrow>
      formData (handleSubmit u fetch st) = emptyForm \<and>
      submitStatus (handleSubmit u fetch st) = Success \<and>
      timers (handleSubmit u fetch st) = timers st @ [(3000, CloseUploadForm)]"
    using submit_try_ok [OF f, of fetch u r] by (simp add: v)
  show ?thesis using True a b c by (simp add: emptyForm_def)
qed

theorem handleSubmit_formData_witness:
  "fst (validateForm (Some ann) ann_state) \<and>
   answers ok_response (upload_request (Some ann) (formData ann_state)) = Resolves ok_response \<and>
   ok ok_response \<and>
   formData (handleSubmit (Some ann) (answers ok_response) ann_state) =
     \<lparr>firstName = [], lastName = [], brandName = [], email = [], file' = None\<rparr> \<and>
   submitStatus (handleSubmit (Some ann) (answers ok_response) ann_state) = Success \<and>
   timers (handleSubmit (Some ann) (answers ok_response) ann_state) = [(3000, CloseUploadForm)] \<and>
   answers error_response (upload_request (Some ann) (formData ann_state)) =
     Resolves error_response \<and>
   \<not> ok error_response \<and>
   formData (handleSubmit (Some ann) (answers error_response) ann_state) = ann_form \<and>
   refuses Null (upload_request (Some ann) (formData ann_state)) = Rejects Null \<and>
   formData (handleSubmit (Some ann) (refuses Null) ann_state) = ann_form \<and>
   \<not> fst (validateForm None (initial_state [])) \<and>
   formData (handleSubmit None (answers ok_response) (initial_state [])) = emptyForm"
proof -
  note v = ann_state_valid
  have f1: "answers ok_response (upload_request (Some ann) (formData ann_state)) =
      Resolves ok_response" "ok ok_response"
    by (simp_all add: answers_def ok_response_def)
  have f2: "answers error_response (upload_request (Some ann) (formData ann_state)) =
      Resolves error_response" "\<not> ok error_response"
    by (simp_all add: answers_def error_response_def)
  have f3: "refuses Null (upload_request (Some ann) (formData ann_state)) = Rejects Null"
    by (simp add: refuses_def)
  note n = initial_state_invalid [of "[]"]
  from handleSubmit_formData [where u = "Some ann" and st = ann_state
      and fetch = "answers ok_response" and r = ok_response] v f1
  have c1: "formData (handleSubmit (Some ann) (answers ok_response) ann_state) =
     \<lparr>firstName = [], lastName = [], brandName = [], email = [], file' = None\<rparr>"
    "submitStatus (handleSubmit (Some ann) (answers ok_response) ann_state) = Success"
    "timers (handleSubmit (Some ann) (answers ok_response) ann_state) = [(3000, CloseUploadForm)]"
    by (simp_all add: ann_state_def initial_state_def)
  from handleSubmit_formData [where u = "Some ann" and st = ann_state
      and fetch = "answers error_response" and r = error_response] f2
  have c2: "formData (handleSubmit (Some ann) (answers error_response) ann_state) = ann_form"
    by (simp add: ann_state_def)
  from handleSubmit_formData [where u = "Some ann" and st = ann_state
      and fetch = "refuses Null" and e = Null] f3
  have c3: "formData (handleSubmit (Some ann) (refuses Null) ann_state) = ann_form"
    by (simp add: ann_state_def)
  from handleSubmit_formData [where u = None and st = "initial_state []"
      and fetch = "answers ok_response"] n
  have c4: "formData (handleSubmit None (answers ok_response) (initial_state [])) = emptyForm"
    by (simp add: initial_state_def)
  show ?thesis using v f1 f2 f3 n c1 c2 c3 c4 by blast
qed

text \<open>
  C7, as amended. A click on the retrieve button issues exactly one request: a POST to
  the webhook with a JSON body of the user's id, the user's e-mail and the time of the
  click. A submission that passes \<open>validateForm\<close> issues exactly one request: a POST of
  the \<open>FormData\<close> to the path of the document upload. A submission that does not pass
  issues none.
\<close>

theorem requests_fixed_endpoints:
  "requests (retrieve_onClick (Some x) JSON_parse fetch now_request now_message st) =
     requests st @
     [\<lparr> url = js ''https://iamfashion.app.n8n.cloud/webhook/511abe15-0332-4bf8-9ed7-bc718465191c'',
        http_method = js ''POST'',
        headers = [(js ''Content-Type'', js ''application/json'')],
        body = JsonBody (Obj [(js ''userId'', Str (user_id x)), (js ''email'', Str (user_email x)),
                              (js ''timestamp'', Str now_request)]) \<rparr>]
   \<and> (fst (validateForm u st) \<longrightarrow>
        requests (handleSubmit u fetch st) =
          requests st @
          [\<lparr> url = js ''/api/webhook-test/document-upload'', http_method = js ''POST'',
             headers = [], body = FormBody (formDataToSend u (formData st)) \<rparr>])
   \<and> (\<not> fst (validateForm u st) \<longrightarrow> requests (handleSubmit u fetch st) = requests st)"
proof -
  have a: "requests (retrieve_onClick (Some x) JSON_parse fetch now_request now_message st) =
     requests st @ [history_request (Some x) now_request]"
    by (simp add: retrieve_onClick_def Let_def retrieve_catch_def dispatch_def console_log_def
        console_error_def extract_messages_def parse_catch_def
        split: fetch_result.splits sum.splits prod.splits json.splits)
  have b: "fst (validateForm u st) \<Longrightarrow>
      requests (handleSubmit u fetch st) = requests st @ [upload_request u (formData st)]"
  proof -
    assume v: "fst (validateForm u st)"
    then obtain f where f: "file' (formData st) = Some f" using validateForm_file by blast
    show ?thesis by (simp add: handleSubmit_valid [OF v] submit_try_requests [OF f])
  qed
  have c: "\<not> fst (validateForm u st) \<Longrightarrow> requests (handleSubmit u fetch st) = requests st"
    by (simp add: handleSubmit_invalid)
  show ?thesis using a b c by (simp add: history_request_def upload_request_def)
qed

lemma no_file_invalid: "\<not> fst (validateForm u (initial_state uid))"
  by (simp add: validateForm_eq error_keys_Nil err_file_None file_ok_def initial_state_def
      emptyForm_def)

theorem requests_fixed_endpoints_witness:
  "requests (retrieve_onClick (Some ann) not_json (answers text_response) (js ''t0'') (js ''t1'')
     (initial_state [])) =
     [\<lparr> url = js ''https://iamfashion.app.n8n.cloud/webhook/511abe15-0332-4bf8-9ed7-bc718465191c'',
        http_method = js ''POST'',
        headers = [(js ''Content-Type'', js ''application/json'')],
        body = JsonBody (Obj [(js ''userId'', Str (js ''u1'')), (js ''email'', Str (js ''ann@acme.io'')),
                              (js ''timestamp'', Str (js ''t0''))]) \<rparr>] \<and>
   fst (validateForm (Some ann) ann_state) \<and>
   requests (handleSubmit (Some ann) (answers ok_response) ann_state) =
     [\<lparr> url = js ''/api/webhook-test/document-upload'', http_method = js ''POST'',
        headers = [], body = FormBody (formDataToSend (Some ann) ann_form) \<rparr>] \<and>
   \<not> fst (validateForm None (initial_state [])) \<and>
   requests (handleSubmit None (answers ok_response) (initial_state [])) = []"
proof -
  note v = ann_state_valid
  note n = initial_state_invalid [of "[]"]
  have i: "requests (initial_state []) = []" by (simp add: initial_state_def)
  note t1 = requests_fixed_endpoints [where x = ann and JSON_parse = not_json
      and fetch = "answers text_response" and now_request = "js ''t0''"
      and now_message = "js ''t1''" and st = "initial_state []" and u = None]
  note t2 = requests_fixed_endpoints [where x = ann and JSON_parse = not_json
      and fetch = "answers ok_response" and now_request = "js ''t0''"
      and now_message = "js ''t1''" and st = ann_state and u = "Some ann"]
  have a: "requests (retrieve_onClick (Some ann) not_json (answers text_response) (js ''t0'')
      (js ''t1'') (initial_state [])) =
     [\<lparr> url = js ''https://iamfashion.app.n8n.cloud/webhook/511abe15-0332-4bf8-9ed7-bc718465191c'',
        http_method = js ''POST'',
        headers = [(js ''Content-Type'', js ''application/json'')],
        body = JsonBody (Obj [(js ''userId'', Str (js ''u1'')), (js ''email'', Str (js ''ann@acme.io'')),
                              (js ''timestamp'', Str (js ''t0''))]) \<rparr>]"
    using t1 by (simp add: i ann_def)
  have b: "requests (handleSubmit (Some ann) (answers ok_response) ann_state) =
     [\<lparr> url = js ''/api/webhook-test/document-upload'', http_method = js ''POST'',
        headers = [], body = FormBody (formDataToSend (Some ann) ann_form) \<rparr>]"
    using t2 v by (simp add: ann_state_def i)
  note t3 = requests_fixed_endpoints [where x = ann and JSON_parse = not_json
      and fetch = "answers ok_response" and now_request = "js ''t0''"
      and now_message = "js ''t1''" and st = "initial_state []" and u = None]
  have c: "requests (handleSubmit None (answers ok_response) (initial_state [])) = []"
    using t3 n unfolding i by blast
  show ?thesis using a b c v n by blast
qed

text \<open>
  The claim as stated fails for a submission that does not pass \<open>validateForm\<close>: a
  logged-in user who submits without a selected file sends nothing.
\<close>

theorem submission_without_request:
  "\<not> fst (validateForm (Some ann) (initial_state [])) \<and>
   requests (handleSubmit (Some ann) (answers ok_response) (initial_state [])) = []"
  using no_file_invalid [of "Some ann" "[]"]
  by (simp add: handleSubmit_invalid) (simp add: initial_state_def)

text \<open>
  C9. In the request of a submission that passes \<open>validateForm\<close>, the entry \<open>userId\<close> of the
  body is the effective e-mail, the same value as the entry \<open>email\<close>, whereas the
  \<open>Upload data\<close> object written to the console has as \<open>userId\<close> the user's id, or the
  generated id when there is no user or the user's id is empty.
\<close>

theorem upload_userId_is_email:
  "fst (validateForm u st) \<longrightarrow>
     (\<exists>es. requests (handleSubmit u fetch st) =
             requests st @ [\<lparr> url = js ''/api/webhook-test/document-upload'',
                               http_method = js ''POST'', headers = [], body = FormBody es \<rparr>] \<and>
           map_of es (js ''userId'') = Some (Text (effective u user_email (email (formData st)))) \<and>
           map_of es (js ''userId'') = map_of es (js ''email'')) \<and>
     (\<exists>d rest. console (handleSubmit u fetch st) =
            console st @
            [(Log, [Str (js ''Sending document upload to:''),
                    Str (js ''https://iamfashion.app.n8n.cloud/webhook/document-upload'')]),
             (Log, [Str (js ''Upload data:''), d])] @ rest \<and>
          property_of d ''userId'' = Str (effective u user_id (userId st)))"
proof
  assume v: "fst (validateForm u st)"
  then obtain f where f: "file' (formData st) = Some f" using validateForm_file by blast
  have r: "requests (handleSubmit u fetch st) =
      requests st @ [\<lparr> url = js ''/api/webhook-test/document-upload'',
         http_method = js ''POST'', headers = [],
         body = FormBody (formDataToSend u (formData st)) \<rparr>]"
    by (simp add: handleSubmit_valid [OF v] submit_try_requests [OF f] upload_request_def)
  have m: "map_of (formDataToSend u (formData st)) (js ''userId'') =
      Some (Text (effective u user_email (email (formData st))))"
    "map_of (formDataToSend u (formData st)) (js ''email'') =
      Some (Text (effective u user_email (email (formData st))))"
    by (simp_all add: formDataToSend_def user_or_effective js_def)
  from submit_try_console [OF f, of u fetch
      "st\<lparr>errors := newErrors u (formData st), isSubmitting := True, submitStatus := Idle\<rparr>"]
  obtain rest where c: "console (handleSubmit u fetch st) =
       console st @
       [(Log, [Str (js ''Sending document upload to:''),
               Str (js ''https://iamfashion.app.n8n.cloud/webhook/document-upload'')]),
        (Log, [Str (js ''Upload data:''), upload_data u (userId st) (formData st) f])] @ rest"
    by (auto simp: handleSubmit_valid [OF v])
  have p: "property_of (upload_data u (userId st) (formData st) f) ''userId'' =
      Str (effective u user_id (userId st))"
    by (simp add: upload_data_def get_prop_def user_or_effective js_def)
  have x: "\<exists>es. requests (handleSubmit u fetch st) =
             requests st @ [\<lparr> url = js ''/api/webhook-test/document-upload'',
                               http_method = js ''POST'', headers = [], body = FormBody es \<rparr>] \<and>
           map_of es (js ''userId'') = Some (Text (effective u user_email (email (formData st)))) \<and>
           map_of es (js ''userId'') = map_of es (js ''email'')"
    by (rule exI [where x = "formDataToSend u (formData st)"]) (simp add: r m)
  have y: "\<exists>d rest. console (handleSubmit u fetch st) =
            console st @
            [(Log, [Str (js ''Sending document upload to:''),
                    Str (js ''https://iamfashion.app.n8n.cloud/webhook/document-upload'')]),
             (Log, [Str (js ''Upload data:''), d])] @ rest \<and>
          property_of d ''userId'' = Str (effective u user_id (userId st))"
    using c p by (intro exI conjI)
  from x y show "(\<exists>es. requests (handleSubmit u fetch st) =
             requests st @ [\<lparr> url = js ''/api/webhook-test/document-upload'',
                               http_method = js ''POST'', headers = [], body = FormBody es \<rparr>] \<and>
           map_of es (js ''userId'') = Some (Text (effective u user_email (email (formData st)))) \<and>
           map_of es (js ''userId'') = map_of es (js ''email'')) \<and>
     (\<exists>d rest. console (handleSubmit u fetch st) =
            console st @
            [(Log, [Str (js ''Sending document upload to:''),
                    Str (js ''https://iamfashion.app.n8n.cloud/webhook/document-upload'')]),
             (Log, [Str (js ''Upload data:''), d])] @ rest \<and>
          property_of d ''userId'' = Str (effective u user_id (userId st)))"
    by (rule conjI)
qed

theorem upload_userId_is_email_witness:
  "fst (validateForm (Some ann) ann_state) \<and>
   (\<exists>es. requests (handleSubmit (Some ann) (answers ok_response) ann_state) =
           [\<lparr> url = js ''/api/webhook-test/document-upload'',
              http_method = js ''POST'', headers = [], body = FormBody es \<rparr>] \<and>
         map_of es (js ''userId'') = Some (Text (js ''ann@acme.io''))) \<and>
   (\<exists>d rest. console (handleSubmit (Some ann) (answers ok_response) ann_state) =
          [(Log, [Str (js ''Sending document upload to:''),
                  Str (js ''https://iamfashion.app.n8n.cloud/webhook/document-upload'')]),
           (Log, [Str (js ''Upload data:''), d])] @ rest \<and>
        property_of d ''userId'' = Str (js ''u1'')) \<and>
   js ''ann@acme.io'' \<noteq> js ''u1''"
proof -
  note v = ann_state_valid
  have e: "effective (Some ann) user_email (email (formData ann_state)) = js ''ann@acme.io''"
    "effective (Some ann) user_id (userId ann_state) = js ''u1''"
    by (simp_all add: effective_def ann_def)
  have s: "requests ann_state = []" "console ann_state = []"
    by (simp_all add: ann_state_def initial_state_def)
  have d: "js ''ann@acme.io'' \<noteq> js ''u1''" by (simp add: js_def)
  have w0: "(\<exists>es. requests (handleSubmit (Some ann) (answers ok_response) ann_state) =
           [] @ [\<lparr> url = js ''/api/webhook-test/document-upload'',
              http_method = js ''POST'', headers = [], body = FormBody es \<rparr>] \<and>
         map_of es (js ''userId'') = Some (Text (js ''ann@acme.io'')) \<and>
         map_of es (js ''userId'') = map_of es (js ''email'')) \<and>
   (\<exists>d rest. console (handleSubmit (Some ann) (answers ok_response) ann_state) =
          [] @ [(Log, [Str (js ''Sending document upload to:''),
                  Str (js ''https://iamfashion.app.n8n.cloud/webhook/document-upload'')]),
           (Log, [Str (js ''Upload data:''), d])] @ rest \<and>
        property_of d ''userId'' = Str (js ''u1''))"
    using upload_userId_is_email [of "Some ann" ann_state "answers ok_response"] v
    unfolding e s by (rule mp)
  from w0 obtain es where es:
    "requests (handleSubmit (Some ann) (answers ok_response) ann_state) =
       [] @ [\<lparr> url = js ''/api/webhook-test/document-upload'',
              http_method = js ''POST'', headers = [], body = FormBody es \<rparr>]"
    "map_of es (js ''userId'') = Some (Text (js ''ann@acme.io''))"
    by (elim conjE exE)
  from w0 obtain d0 rest where dr:
    "console (handleSubmit (Some ann) (answers ok_response) ann_state) =
       [] @ [(Log, [Str (js ''Sending document upload to:''),
                  Str (js ''https://iamfashion.app.n8n.cloud/webhook/document-upload'')]),
           (Log, [Str (js ''Upload data:''), d0])] @ rest"
    "property_of d0 ''userId'' = Str (js ''u1'')"
    by (elim conjE exE)
  have w1: "\<exists>es. requests (handleSubmit (Some ann) (answers ok_response) ann_state) =
           [\<lparr> url = js ''/api/webhook-test/document-upload'',
              http_method = js ''POST'', headers = [], body = FormBody es \<rparr>] \<and>
         map_of es (js ''userId'') = Some (Text (js ''ann@acme.io''))"
    using es by (intro exI [where x = es]) simp
  have w2: "\<exists>d rest. console (handleSubmit (Some ann) (answers ok_response) ann_state) =
          [(Log, [Str (js ''Sending document upload to:''),
                  Str (js ''https://iamfashion.app.n8n.cloud/webhook/document-upload'')]),
           (Log, [Str (js ''Upload data:''), d])] @ rest \<and>
        property_of d ''userId'' = Str (js ''u1'')"
    using dr by (intro exI [where x = d0] exI [where x = rest]) simp
  show ?thesis using v w1 w2 d by (intro conjI)
qed

section \<open>Properties of the handler of the retrieve button\<close>

lemma first_truthy_Cons: "first_truthy (v # vs) d = js_or v (first_truthy vs d)"
  by (simp add: first_truthy_def js_or_def)

lemma first_truthy_Nil: "first_truthy [] d = d"
  by (simp add: first_truthy_def)

lemma js_or_assoc: "js_or (js_or a b) c = js_or a (js_or b c)"
  by (simp add: js_or_def)

lemma truthy_length: "truthy v \<Longrightarrow> \<exists>len. prop_length v = Inr len"
  by (cases v) auto

lemma truthy_first_truthy: "truthy d \<Longrightarrow> truthy (first_truthy vs d)"
  by (induction vs) (simp_all add: first_truthy_Nil first_truthy_Cons js_or_def)

lemma truthy_disj: "truthy (js_or (js_or a b) c) = list_ex truthy [a, b, c]"
  by (simp add: js_or_def)

lemma extract_object:
  "JSON_parse t = Inr (JObj kvs) \<Longrightarrow>
     fst (extract_messages JSON_parse now t st) =
       (let found = first_truthy
              (map (property_of (of_json (JObj kvs)))
                 [''messages'', ''data'', ''history'', ''chat_history'', ''conversations'', ''items''])
              (Arr [])
        in if has_length_zero found \<and>
              list_ex (\<lambda>k. truthy (property_of (of_json (JObj kvs)) k))
                [''content'', ''message'', ''text'']
           then Arr [of_json (JObj kvs)] else found)"
proof -
  assume p: "JSON_parse t = Inr (JObj kvs)"
  let ?p = "get_prop (map (map_prod id of_json) kvs)"
  let ?found = "first_truthy
     [?p ''messages'', ?p ''data'', ?p ''history'', ?p ''chat_history'', ?p ''conversations'',
      ?p ''items''] (Arr [])"
  have chain: "js_or (js_or (js_or (js_or (js_or (js_or
        (?p ''messages'') (?p ''data'')) (?p ''history'')) (?p ''chat_history''))
        (?p ''conversations'')) (?p ''items'')) (Arr []) = ?found"
    by (simp only: js_or_assoc first_truthy_Cons first_truthy_Nil)
  have "truthy ?found" by (rule truthy_first_truthy) simp
  then obtain len where len: "prop_length ?found = Inr len" using truthy_length by blast
  show ?thesis
    using p len
    by (auto simp: extract_messages_def Let_def chain has_length_zero_def truthy_disj)
qed

lemma extract_state_free:
  "fst (extract_messages JSON_parse now t st) = fst (extract_messages JSON_parse now t st0)"
  by (simp add: extract_messages_def parse_catch_def Let_def
      split: sum.splits json.splits)

text \<open>
  C1, as amended. From the text of the response the handler makes the detail of the
  event as follows. If the text parses as a JSON array, the detail is that array. If it
  parses as a JSON object, take the first truthy value among its fields \<open>messages\<close>,
  \<open>data\<close>, \<open>history\<close>, \<open>chat_history\<close>, \<open>conversations\<close>, \<open>items\<close>, or the empty list when
  none is truthy; if the length of that value is 0 and one of the fields \<open>content\<close>,
  \<open>message\<close>, \<open>text\<close> of the object is truthy, the detail is the list of the object
  alone, otherwise it is that value. If the text does not parse and is not blank, the
  detail is one message of the sender \<open>bot\<close> whose content is the trimmed text. For an ok
  response whose text was read, the handler dispatches \<open>loadWebhookHistory\<close> with that
  detail.
\<close>

theorem extract_messages_cases:
  "(JSON_parse t = Inr (JArr xs) \<longrightarrow>
      fst (extract_messages JSON_parse now t st) = Arr (map of_json xs))
   \<and> (JSON_parse t = Inr (JObj kvs) \<longrightarrow>
      fst (extract_messages JSON_parse now t st) =
        (let found = first_truthy
               (map (property_of (of_json (JObj kvs)))
                  [''messages'', ''data'', ''history'', ''chat_history'', ''conversations'',
                   ''items''])
               (Arr [])
         in if has_length_zero found \<and>
               list_ex (\<lambda>k. truthy (property_of (of_json (JObj kvs)) k))
                 [''content'', ''message'', ''text'']
            then Arr [of_json (JObj kvs)] else found))
   \<and> (JSON_parse t = Inl e \<and> trim t \<noteq> [] \<longrightarrow>
      fst (extract_messages JSON_parse now t st) =
        Arr [Obj [(js ''content'', Str (trim t)), (js ''sender'', Str (js ''bot'')),
                  (js ''timestamp'', Str now)]])
   \<and> (fetch (history_request u now_request) = Resolves r \<and> ok r \<and> text_result r = Inr t \<longrightarrow>
      events (retrieve_onClick u JSON_parse fetch now_request now st) =
        events st @ [(js ''loadWebhookHistory'', fst (extract_messages JSON_parse now t st))])"
proof -
  have a: "JSON_parse t = Inr (JArr xs) \<Longrightarrow>
      fst (extract_messages JSON_parse now t st) = Arr (map of_json xs)"
    by (simp add: extract_messages_def Let_def)
  have c: "JSON_parse t = Inl e \<Longrightarrow> trim t \<noteq> [] \<Longrightarrow>
      fst (extract_messages JSON_parse now t st) =
        Arr [Obj [(js ''content'', Str (trim t)), (js ''sender'', Str (js ''bot'')),
                  (js ''timestamp'', Str now)]]"
    by (simp add: extract_messages_def parse_catch_def Let_def bot_message_def)
  have ev: "\<And>s. events (snd (extract_messages JSON_parse now t s)) = events s"
    by (simp add: extract_messages_def parse_catch_def Let_def console_log_def
        split: sum.splits json.splits)
  have d: "fetch (history_request u now_request) = Resolves r \<Longrightarrow> ok r \<Longrightarrow>
      text_result r = Inr t \<Longrightarrow>
      events (retrieve_onClick u JSON_parse fetch now_request now st) =
        events st @ [(js ''loadWebhookHistory'', fst (extract_messages JSON_parse now t st))]"
  proof -
    assume h: "fetch (history_request u now_request) = Resolves r" "ok r" "text_result r = Inr t"
    let ?st3 = "console_log [Str (js ''Raw webhook response:''), Str t]
        ((console_log [Str (js ''Calling retrieve chat history webhook...'')] st)
           \<lparr>requests := requests (console_log [Str (js ''Calling retrieve chat history webhook...'')] st)
              @ [history_request u now_request]\<rparr>)"
    have e3: "events ?st3 = events st" by (simp add: console_log_def)
    obtain m st4 where x: "extract_messages JSON_parse now t ?st3 = (m, st4)"
      by (cases "extract_messages JSON_parse now t ?st3")
    have m: "m = fst (extract_messages JSON_parse now t st)"
      using x extract_state_free [of JSON_parse now t ?st3 st] by simp
    have e4: "events st4 = events st" using ev [of ?st3] x e3 by simp
    show ?thesis
      using h x by (simp add: retrieve_onClick_def Let_def dispatch_def console_log_def m e4)
  qed
  show ?thesis using a extract_object [of JSON_parse t kvs now st] c d by blast
qed

lemma sample_trim: "trim (js '' hello '') = js ''hello''"
  by (simp add: trim_def js_def is_white_space_def white_space_def)

theorem extract_messages_cases_witness:
  "parses_to (JArr [JStr (js ''hi'')]) [] = Inr (JArr [JStr (js ''hi'')]) \<and>
   fst (extract_messages (parses_to (JArr [JStr (js ''hi'')])) (js ''t1'') [] (initial_state []))
     = Arr [Str (js ''hi'')] \<and>
   parses_to zero_messages [] = Inr zero_messages \<and>
   fst (extract_messages (parses_to zero_messages) (js ''t1'') [] (initial_state []))
     = Arr [Str (js ''hi'')] \<and>
   parses_to single_message [] = Inr single_message \<and>
   fst (extract_messages (parses_to single_message) (js ''t1'') [] (initial_state []))
     = Arr [Obj [(js ''content'', Str (js ''hi''))]] \<and>
   not_json (js '' hello '') = Inl (ErrorObj (js ''Unexpected token'')) \<and>
   trim (js '' hello '') \<noteq> [] \<and>
   fst (extract_messages not_json (js ''t1'') (js '' hello '') (initial_state []))
     = Arr [Obj [(js ''content'', Str (js ''hello'')), (js ''sender'', Str (js ''bot'')),
                 (js ''timestamp'', Str (js ''t1''))]] \<and>
   answers text_response (history_request (Some ann) (js ''t0'')) = Resolves text_response \<and>
   ok text_response \<and> text_result text_response = Inr (js '' hello '') \<and>
   events (retrieve_onClick (Some ann) not_json (answers text_response) (js ''t0'') (js ''t1'')
     (initial_state [])) =
     [(js ''loadWebhookHistory'',
       Arr [Obj [(js ''content'', Str (js ''hello'')), (js ''sender'', Str (js ''bot'')),
                 (js ''timestamp'', Str (js ''t1''))]])]"
proof -
  have p1: "parses_to (JArr [JStr (js ''hi'')]) [] = Inr (JArr [JStr (js ''hi'')])"
    by (simp add: parses_to_def)
  have p2: "parses_to zero_messages [] = Inr (JObj [(js ''messages'', JNum (Fin 0)),
      (js ''data'', JArr [JStr (js ''hi'')])])"
    by (simp add: parses_to_def zero_messages_def)
  have p3: "parses_to single_message [] = Inr (JObj [(js ''content'', JStr (js ''hi''))])"
    by (simp add: parses_to_def single_message_def)
  have p4: "not_json (js '' hello '') = Inl (ErrorObj (js ''Unexpected token'')) \<and>
      trim (js '' hello '') \<noteq> []"
    by (simp add: not_json_def sample_trim)
  have f: "answers text_response (history_request (Some ann) (js ''t0'')) = Resolves text_response
      \<and> ok text_response \<and> text_result text_response = Inr (js '' hello '')"
    by (simp add: answers_def text_response_def)
  have e: "events (initial_state []) = []" by (simp add: initial_state_def)
  have c1: "fst (extract_messages (parses_to (JArr [JStr (js ''hi'')])) (js ''t1'') []
      (initial_state [])) = Arr [Str (js ''hi'')]"
    using extract_messages_cases [where JSON_parse = "parses_to (JArr [JStr (js ''hi'')])"
        and t = "[]" and now = "js ''t1''" and st = "initial_state []",
        THEN conjunct1, THEN mp, OF p1]
    by simp
  have c2: "fst (extract_messages (parses_to zero_messages) (js ''t1'') [] (initial_state []))
     = Arr [Str (js ''hi'')]"
    using extract_messages_cases [where JSON_parse = "parses_to zero_messages"
        and t = "[]" and now = "js ''t1''" and st = "initial_state []",
        THEN conjunct2, THEN conjunct1, THEN mp, OF p2]
    by (simp add: first_truthy_def get_prop_def has_length_zero_def js_def)
  have c3: "fst (extract_messages (parses_to single_message) (js ''t1'') [] (initial_state []))
     = Arr [Obj [(js ''content'', Str (js ''hi''))]]"
    using extract_messages_cases [where JSON_parse = "parses_to single_message"
        and t = "[]" and now = "js ''t1''" and st = "initial_state []",
        THEN conjunct2, THEN conjunct1, THEN mp, OF p3]
    by (simp add: first_truthy_def get_prop_def has_length_zero_def js_def)
  have c4: "fst (extract_messages not_json (js ''t1'') (js '' hello '') (initial_state []))
     = Arr [Obj [(js ''content'', Str (js ''hello'')), (js ''sender'', Str (js ''bot'')),
                 (js ''timestamp'', Str (js ''t1''))]]"
    using extract_messages_cases [where JSON_parse = not_json
        and t = "js '' hello ''" and now = "js ''t1''" and st = "initial_state []",
        THEN conjunct2, THEN conjunct2, THEN conjunct1, THEN mp, OF p4]
    by (simp only: sample_trim)
  have c5: "events (retrieve_onClick (Some ann) not_json (answers text_response) (js ''t0'')
      (js ''t1'') (initial_state [])) =
     [(js ''loadWebhookHistory'',
       Arr [Obj [(js ''content'', Str (js ''hello'')), (js ''sender'', Str (js ''bot'')),
                 (js ''timestamp'', Str (js ''t1''))]])]"
    using extract_messages_cases [where JSON_parse = not_json and fetch = "answers text_response"
        and u = "Some ann" and now_request = "js ''t0''" and r = text_response
        and t = "js '' hello ''" and now = "js ''t1''" and st = "initial_state []",
        THEN conjunct2, THEN conjunct2, THEN conjunct2, THEN mp, OF f]
    by (simp only: c4 e append_Nil)
  show ?thesis
    unfolding zero_messages_def [symmetric] single_message_def [symmetric]
    using p1 p2 [folded zero_messages_def] p3 [folded single_message_def] p4 f c1 c2 c3 c4 c5
    by (intro conjI) (simp_all only: simp_thms)
qed

text \<open>
  The claim as stated fails where a field is present and falsy. With \<open>messages: 0\<close> the
  first present field is \<open>messages\<close>, and the handler takes \<open>data\<close>. With an empty list of
  \<open>messages\<close> and an empty \<open>text\<close> the object has a \<open>text\<close> field, and the handler does
  not take the object as a message.
\<close>

theorem present_is_not_truthy:
  "claimed_message_list zero_messages = Num (Fin 0) \<and>
   fst (extract_messages (parses_to zero_messages) (js ''t1'') [] (initial_state [])) =
     Arr [Str (js ''hi'')] \<and>
   claimed_message_list empty_text = Arr [Obj [(js ''messages'', Arr []), (js ''text'', Str [])]] \<and>
   fst (extract_messages (parses_to empty_text) (js ''t1'') [] (initial_state [])) = Arr []"
proof -
  have a: "claimed_message_list zero_messages = Num (Fin 0)"
    by (simp add: claimed_message_list_def zero_messages_def first_present_def get_prop_def js_def)
  have b: "fst (extract_messages (parses_to zero_messages) (js ''t1'') [] (initial_state [])) =
     Arr [Str (js ''hi'')]"
    by (simp add: extract_messages_def parses_to_def zero_messages_def Let_def get_prop_def
        js_or_def js_def)
  have c: "claimed_message_list empty_text =
      Arr [Obj [(js ''messages'', Arr []), (js ''text'', Str [])]]"
    by (simp add: claimed_message_list_def empty_text_def first_present_def get_prop_def js_def)
  have d: "fst (extract_messages (parses_to empty_text) (js ''t1'') [] (initial_state [])) = Arr []"
    by (simp add: extract_messages_def parses_to_def empty_text_def Let_def get_prop_def
        js_or_def js_def)
  show ?thesis using a b c d by (intro conjI)
qed

end
